theory Spec2Isabelle
  imports Main "HOL-Library.Sublist"
begin

section \<open>The ref view of grv (cmd/grv/ref\_view.go)\<close>

text \<open>
  The ref view shows branches and tags in three collapsible groups. Every generated row
  passes through a chain of row collectors: the head collects every row, each further
  link holds a filter and collects the rows its predecessor passed on that match it, and
  the last link's rows are the ones displayed.

  Conventions of the embedding.
  \<^item> A Go struct is a record, an enumeration a datatype, a slice a list.
  \<^item> A \<open>*T\<close> that may be nil is a \<open>T option\<close>. The \<open>*refList\<close> of a row is the index
    of the group in \<open>refLists\<close>, since the group is mutated through it.
  \<^item> A run-time panic (slice index out of range, nil dereference) is \<open>Inl\<close> of a
    \<open>panic\<close>; a Go \<open>error\<close> is a message, \<open>None\<close> for nil.
  \<^item> \<open>uint\<close> values that count or index rows are naturals (they are bounded by the
    length of a slice held in memory); where the source subtracts from a \<open>uint\<close> that
    may be smaller, the 64-bit wrap-around is written out.
  \<^item> The struct fields \<open>value\<close>, \<open>oid\<close>, \<open>name\<close> and \<open>renderedRefType\<close> occur in several
    structs; they are \<open>refValue\<close>, \<open>oid\<close>, \<open>renderedRefType\<close> on a row, \<open>name\<close>,
    \<open>groupRefType\<close> on a group, \<open>branchName\<close>/\<open>branchOid\<close> and \<open>tagName\<close>/\<open>tagOid\<close>.
\<close>

subsection \<open>Rows and groups\<close>

datatype RenderedRefType =
    RvLocalBranchGroup
  | RvRemoteBranchGroup
  | RvLocalBranch
  | RvRemoteBranch
  | RvTagGroup
  | RvTag
  | RvSpace
  | RvLoading

text \<open>
  An object id is the 20 bytes of a SHA-1; \<open>Oid.String()\<close> is its 40 lower-case
  hexadecimal digits. Here the id is the number the 20 bytes spell, below \<open>2 ^ 160\<close>.
\<close>

datatype Oid = Oid nat

definition hexDigit :: "nat \<Rightarrow> char" where
  "hexDigit d = ''0123456789abcdef'' ! (d mod 16)"

fun hexDigits :: "nat \<Rightarrow> nat \<Rightarrow> string" where
  "hexDigits 0 v = []"
| "hexDigits (Suc n) v = hexDigits n (v div 16) @ [hexDigit v]"

fun oidString :: "Oid \<Rightarrow> string" where
  "oidString (Oid v) = hexDigits 40 v"

text \<open>The generator of a group (\<open>renderedRefGenerator\<close>), a function value in the source.\<close>

datatype renderedRefGenerator = GenerateBranches | GenerateTags

record refList =
  name :: string
  expanded :: bool
  renderer :: renderedRefGenerator
  groupRefType :: RenderedRefType

record RenderedRef =
  refValue :: string
  oid :: "Oid option"
  renderedRefType :: RenderedRefType
  refList :: "nat option"
  refNum :: nat

text \<open>
  A compiled filter is used through \<open>MatchesFilter\<close> only; it is the predicate on rows
  that this method computes.
\<close>

type_synonym RefFilter = "RenderedRef \<Rightarrow> bool"

definition MatchesFilter :: "RefFilter \<Rightarrow> RenderedRef \<Rightarrow> bool" where
  "MatchesFilter refFilter renderedRef = refFilter renderedRef"

subsection \<open>The chain of row collectors (\<open>renderedRefList\<close>)\<close>

datatype renderedRefList =
  RenderedRefList
    (child: "renderedRefList option")
    (renderedRefs: "RenderedRef list")
    (refFilter: "RefFilter option")

definition newFilteredRenderedRefList :: "RefFilter option \<Rightarrow> renderedRefList" where
  "newFilteredRenderedRefList f = RenderedRefList None [] f"

definition newRenderedRefList :: renderedRefList where
  "newRenderedRefList = newFilteredRenderedRefList None"

text \<open>
  \<open>Add\<close>: a row that the link's filter rejects is dropped; any other row is appended
  and handed to the child.
\<close>

fun Add :: "renderedRefList \<Rightarrow> RenderedRef \<Rightarrow> renderedRefList" where
  "Add (RenderedRefList c rs f) r =
     (if (case f of None \<Rightarrow> False | Some p \<Rightarrow> \<not> MatchesFilter p r)
      then RenderedRefList c rs f
      else RenderedRefList
             (case c of None \<Rightarrow> None | Some ch \<Rightarrow> Some (Add ch r))
             (rs @ [r]) f)"

text \<open>The \<open>range\<close> loop of \<open>AddChild\<close>: every row of the parent is added to the new child.\<close>

fun addAll :: "renderedRefList \<Rightarrow> RenderedRef list \<Rightarrow> renderedRefList" where
  "addAll l [] = l"
| "addAll l (r # rs) = addAll (Add l r) rs"

fun AddChild :: "renderedRefList \<Rightarrow> renderedRefList \<Rightarrow> renderedRefList" where
  "AddChild (RenderedRefList c rs f) new =
     (case c of
        Some ch \<Rightarrow> RenderedRefList (Some (AddChild ch new)) rs f
      | None \<Rightarrow> RenderedRefList (Some (addAll new rs)) rs f)"

text \<open>\<open>RemoveChild\<close> returns the chain and the flag \<open>removed\<close>.\<close>

fun RemoveChild :: "renderedRefList \<Rightarrow> renderedRefList \<times> bool" where
  "RemoveChild (RenderedRefList c rs f) =
     (case c of
        None \<Rightarrow> (RenderedRefList c rs f, False)
      | Some ch \<Rightarrow>
          (case child ch of
             None \<Rightarrow> (RenderedRefList None rs f, True)
           | Some _ \<Rightarrow>
               (RenderedRefList (Some (fst (RemoveChild ch))) rs f, snd (RemoveChild ch))))"

fun Clear :: "renderedRefList \<Rightarrow> renderedRefList" where
  "Clear (RenderedRefList c rs f) =
     RenderedRefList (case c of None \<Rightarrow> None | Some ch \<Rightarrow> Some (Clear ch)) [] f"

fun RenderedRefs :: "renderedRefList \<Rightarrow> RenderedRef list" where
  "RenderedRefs (RenderedRefList c rs f) =
     (case c of Some ch \<Rightarrow> RenderedRefs ch | None \<Rightarrow> rs)"

fun Children :: "renderedRefList \<Rightarrow> nat" where
  "Children (RenderedRefList c rs f) =
     (case c of None \<Rightarrow> 0 | Some ch \<Rightarrow> Suc (Children ch))"

subsection \<open>Repository data, cursor and window: the collaborators\<close>

record Branch =
  branchName :: string
  branchOid :: "Oid option"

record Tag =
  tagName :: string
  tagOid :: "Oid option"

text \<open>
  \<open>RepoData\<close> is the interface of the data provider. The record holds what its
  accessors return: \<open>Branches()\<close> the two branch lists and their loading flag,
  \<open>LocalTags()\<close> the tags and their loading flag, \<open>Head()\<close> the head object id and
  the head branch, nil when HEAD is detached. The head id is never nil: \<open>Initialise\<close>
  returns before anything is generated when \<open>LoadHead\<close> fails.
\<close>

record RepoData =
  localBranches :: "Branch list"
  remoteBranches :: "Branch list"
  branchesLoading :: bool
  localTags :: "Tag list"
  tagsLoading :: bool
  head :: Oid
  headBranch :: "Branch option"

text \<open>
  Modelled from the spec: \<open>ViewPos\<close>, the cursor (section 3, ViewCursor, and section
  4.4), whose implementation is in another file of the repository. It holds the
  selected row index, the first visible row and the first visible column.
  \<open>SetActiveRowIndex\<close> stores the index; \<open>DetermineViewStartRow\<close> moves the first
  visible row by the least amount that brings the selected row into the window and
  leaves the selected index alone; \<open>MoveToFirstLine\<close> and \<open>MoveToLastLine\<close> jump to
  index 0 and to the last index without looking at the rows, and report whether the
  index changed.
\<close>

record ViewPos =
  activeRowIndex :: nat
  viewStartRowIndex :: nat
  viewStartColumn :: nat

definition SetActiveRowIndex :: "nat \<Rightarrow> ViewPos \<Rightarrow> ViewPos" where
  "SetActiveRowIndex i vp = vp\<lparr>activeRowIndex := i\<rparr>"

definition SelectedRowIndex :: "ViewPos \<Rightarrow> nat" where
  "SelectedRowIndex vp = activeRowIndex vp - viewStartRowIndex vp"

definition DetermineViewStartRow :: "nat \<Rightarrow> nat \<Rightarrow> ViewPos \<Rightarrow> ViewPos" where
  "DetermineViewStartRow viewRows rowNum vp =
     (if activeRowIndex vp < viewStartRowIndex vp
      then vp\<lparr>viewStartRowIndex := activeRowIndex vp\<rparr>
      else if viewStartRowIndex vp + viewRows \<le> activeRowIndex vp
      then vp\<lparr>viewStartRowIndex := Suc (activeRowIndex vp) - viewRows\<rparr>
      else vp)"

definition MoveToFirstLine :: "ViewPos \<Rightarrow> ViewPos \<times> bool" where
  "MoveToFirstLine vp =
     (if activeRowIndex vp > 0 then (vp\<lparr>activeRowIndex := 0\<rparr>, True) else (vp, False))"

definition MoveToLastLine :: "nat \<Rightarrow> ViewPos \<Rightarrow> ViewPos \<times> bool" where
  "MoveToLastLine rowNum vp =
     (if rowNum > 0 \<and> activeRowIndex vp \<noteq> rowNum - 1
      then (vp\<lparr>activeRowIndex := rowNum - 1\<rparr>, True) else (vp, False))"

record ViewDimension =
  rows :: nat
  cols :: nat

text \<open>Subtraction on \<open>uint\<close> (64 bits): \<open>a - b\<close> wraps around when \<open>b\<close> is larger.\<close>

definition uintSub :: "nat \<Rightarrow> nat \<Rightarrow> nat" where
  "uintSub a b = (a + 2 ^ 64 - b mod 2 ^ 64) mod 2 ^ 64"

datatype ThemeComponentID =
    CmpNone
  | CmpAllviewSearchMatch
  | CmpRefviewTitle
  | CmpRefviewFooter
  | CmpRefviewLocalBranchesHeader
  | CmpRefviewRemoteBranchesHeader
  | CmpRefviewLocalBranch
  | CmpRefviewRemoteBranch
  | CmpRefviewTagsHeader
  | CmpRefviewTag

text \<open>
  \<open>RenderWindow\<close> is the interface of the drawing surface. A call on it is recorded as
  a \<open>winCall\<close>; the window is its row count, its dimensions and the error (or nil) with
  which it answers each call.
\<close>

datatype winCall =
    SetRow nat nat ThemeComponentID string
  | SetSelectedRow nat bool
  | DrawBorder
  | SetTitle ThemeComponentID string
  | SetFooter ThemeComponentID string
  | Highlight string ThemeComponentID

record RenderWindow =
  Rows :: nat
  ViewDimensions :: ViewDimension
  winResult :: "winCall \<Rightarrow> string option"

record ViewSearch =
  searchActive :: bool
  searchPattern :: string
  lastSearchFoundMatch :: bool

text \<open>What is sent on \<open>channels\<close>, in order.\<close>

datatype channelEvent =
    UpdateDisplay
  | ReportStatus string
  | ReportErrors "string list"

text \<open>
  A listener is the answer of its \<open>OnRefSelect\<close>: nil or an error, for a name and an
  object id. A call made to a listener is recorded with the listener's position in
  the registration order.
\<close>

type_synonym RefListener = "string \<Rightarrow> Oid option \<Rightarrow> string option"

type_synonym refSelectCall = "nat \<times> string \<times> Oid option"

datatype panic = IndexOutOfRange | NilDereference

datatype ActionArg = StringArg string | OtherArg nat

record Action =
  Args :: "ActionArg list"

subsection \<open>The view\<close>

text \<open>
  The field \<open>renderedRefs\<close> of the view, the head of the chain, is \<open>renderedRefSet\<close>
  here (the name \<open>renderedRefs\<close> is the rows of a link). \<open>notified\<close> is the log of the
  calls made to the listeners. The table of handlers is constant and the lock is held
  by every entry point for its whole duration, so each operation is one function on
  the view.
\<close>

record RefView =
  channels :: "channelEvent list"
  repoData :: RepoData
  refLists :: "refList list"
  refListeners :: "RefListener list"
  notified :: "refSelectCall list"
  active :: bool
  renderedRefSet :: renderedRefList
  viewPos :: ViewPos
  viewDimension :: ViewDimension
  viewSearch :: ViewSearch

definition NewRefLists :: "refList list" where
  "NewRefLists =
     [\<lparr>name = ''Branches'', expanded = True, renderer = GenerateBranches,
        groupRefType = RvLocalBranchGroup\<rparr>,
      \<lparr>name = ''Remote Branches'', expanded = False, renderer = GenerateBranches,
        groupRefType = RvRemoteBranchGroup\<rparr>,
      \<lparr>name = ''Tags'', expanded = False, renderer = GenerateTags,
        groupRefType = RvTagGroup\<rparr>]"

definition NewRefView :: "RepoData \<Rightarrow> RefView" where
  "NewRefView rd =
     \<lparr>channels = [], repoData = rd, refLists = NewRefLists, refListeners = [],
      notified = [], active = False, renderedRefSet = newRenderedRefList,
      viewPos = \<lparr>activeRowIndex = 0, viewStartRowIndex = 0, viewStartColumn = 0\<rparr>,
      viewDimension = \<lparr>rows = 0, cols = 0\<rparr>,
      viewSearch = \<lparr>searchActive = False, searchPattern = [], lastSearchFoundMatch = False\<rparr>\<rparr>"

definition RegisterRefListener :: "RefListener \<Rightarrow> RefView \<Rightarrow> RefView" where
  "RegisterRefListener l refView = refView\<lparr>refListeners := refListeners refView @ [l]\<rparr>"

definition getDetachedHeadDisplayValue :: "Oid \<Rightarrow> string" where
  "getDetachedHeadDisplayValue h = ''HEAD detached at '' @ take 7 (oidString h)"

definition isSelectableRenderedRef :: "RenderedRefType \<Rightarrow> bool" where
  "isSelectableRenderedRef t = (t \<noteq> RvSpace \<and> t \<noteq> RvLoading)"

text \<open>Reading a slice at an index panics when the index is not below the length.\<close>

definition rowAt :: "RenderedRef list \<Rightarrow> nat \<Rightarrow> panic + RenderedRef" where
  "rowAt rs i = (if i < length rs then Inr (rs ! i) else Inl IndexOutOfRange)"

subsection \<open>Notification of the listeners\<close>

fun notifyFrom ::
  "nat \<Rightarrow> RefListener list \<Rightarrow> string \<Rightarrow> Oid option \<Rightarrow> refSelectCall list \<times> string option" where
  "notifyFrom i [] refName h = ([], None)"
| "notifyFrom i (l # ls) refName h =
     (case l refName h of
        Some e \<Rightarrow> ([(i, refName, h)], Some e)
      | None \<Rightarrow>
          ((i, refName, h) # fst (notifyFrom (Suc i) ls refName h),
           snd (notifyFrom (Suc i) ls refName h)))"

definition notifyRefListeners ::
  "RefView \<Rightarrow> string \<Rightarrow> Oid option \<Rightarrow> RefView \<times> string option" where
  "notifyRefListeners refView refName h =
     (refView\<lparr>notified :=
        notified refView @ fst (notifyFrom 0 (refListeners refView) refName h)\<rparr>,
      snd (notifyFrom 0 (refListeners refView) refName h))"

subsection \<open>Generation of the rows\<close>

definition loadingRow :: RenderedRef where
  "loadingRow =
     \<lparr>refValue = ''   Loading...'', oid = None, renderedRefType = RvLoading,
      refList = None, refNum = 0\<rparr>"

text \<open>The loop over the branches of \<open>generateBranches\<close>, with the counter \<open>branchNum\<close>.\<close>

fun addBranches ::
  "Branch list \<Rightarrow> RenderedRefType \<Rightarrow> nat \<Rightarrow> renderedRefList \<Rightarrow> renderedRefList" where
  "addBranches [] t branchNum l = l"
| "addBranches (b # bs) t branchNum l =
     addBranches bs t (branchNum + 1)
       (Add l \<lparr>refValue = ''   '' @ branchName b, oid = branchOid b, renderedRefType = t,
               refList = None, refNum = branchNum\<rparr>)"

definition generateBranches ::
  "RefView \<Rightarrow> refList \<Rightarrow> renderedRefList \<Rightarrow> renderedRefList" where
  "generateBranches refView rl l =
     (if branchesLoading (repoData refView) then Add l loadingRow
      else if groupRefType rl = RvLocalBranchGroup then
        (case headBranch (repoData refView) of
           None \<Rightarrow>
             addBranches (localBranches (repoData refView)) RvLocalBranch (1 + 1)
               (Add l \<lparr>refValue = ''   '' @ getDetachedHeadDisplayValue (head (repoData refView)),
                       oid = Some (head (repoData refView)),
                       renderedRefType = RvLocalBranch, refList = None, refNum = 1\<rparr>)
         | Some _ \<Rightarrow> addBranches (localBranches (repoData refView)) RvLocalBranch 1 l)
      else addBranches (remoteBranches (repoData refView)) RvRemoteBranch 1 l)"

fun addTags :: "Tag list \<Rightarrow> nat \<Rightarrow> renderedRefList \<Rightarrow> renderedRefList" where
  "addTags [] tagIndex l = l"
| "addTags (t # ts) tagIndex l =
     addTags ts (tagIndex + 1)
       (Add l \<lparr>refValue = ''   '' @ tagName t, oid = tagOid t, renderedRefType = RvTag,
               refList = None, refNum = tagIndex + 1\<rparr>)"

definition generateTags ::
  "RefView \<Rightarrow> refList \<Rightarrow> renderedRefList \<Rightarrow> renderedRefList" where
  "generateTags refView rl l =
     (if tagsLoading (repoData refView) then Add l loadingRow
      else addTags (localTags (repoData refView)) 0 l)"

fun callRenderer ::
  "renderedRefGenerator \<Rightarrow> RefView \<Rightarrow> refList \<Rightarrow> renderedRefList \<Rightarrow> renderedRefList" where
  "callRenderer GenerateBranches = generateBranches"
| "callRenderer GenerateTags = generateTags"

text \<open>
  The loop of \<open>generateRenderedRefs\<close> over the groups from index \<open>refIndex\<close> on; a
  header row points at its group.
\<close>

fun generateGroups ::
  "RefView \<Rightarrow> nat \<Rightarrow> refList list \<Rightarrow> renderedRefList \<Rightarrow> renderedRefList" where
  "generateGroups refView refIndex [] l = l"
| "generateGroups refView refIndex (rl # rest) l =
     (let expandChar = (if expanded rl then ''-'' else ''+'');
          l1 = Add l \<lparr>refValue = ''  ['' @ expandChar @ ''] '' @ name rl, oid = None,
                       renderedRefType = groupRefType rl, refList = Some refIndex,
                       refNum = 0\<rparr>;
          l2 = (if expanded rl then callRenderer (renderer rl) refView rl l1 else l1);
          l3 = (if refIndex \<noteq> length (refLists refView) - 1
                then Add l2 \<lparr>refValue = [], oid = None, renderedRefType = RvSpace,
                             refList = None, refNum = 0\<rparr>
                else l2)
      in generateGroups refView (Suc refIndex) rest l3)"

definition generateRenderedRefs :: "RefView \<Rightarrow> RefView" where
  "generateRenderedRefs refView =
     refView\<lparr>renderedRefSet :=
       generateGroups refView 0 (refLists refView) (Clear (renderedRefSet refView))\<rparr>"

subsection \<open>Load-completion callbacks of \<open>Initialise\<close>\<close>

text \<open>
  The loop of the branch callback: the row index of the head branch among the local
  branches, counted from \<open>activeRowIndex\<close>.
\<close>

fun headBranchRow :: "string \<Rightarrow> Branch list \<Rightarrow> nat \<Rightarrow> nat" where
  "headBranchRow headName [] activeRow = activeRow"
| "headBranchRow headName (b # bs) activeRow =
     (if branchName b = headName then activeRow
      else headBranchRow headName bs (activeRow + 1))"

definition onBranchesLoaded ::
  "RefView \<Rightarrow> Branch list \<Rightarrow> Branch list \<Rightarrow> RefView \<times> string option" where
  "onBranchesLoaded refView localBs remoteBs =
     (let rv = generateRenderedRefs refView;
          activeRow =
            (case headBranch (repoData rv) of
               None \<Rightarrow> 1
             | Some hb \<Rightarrow> headBranchRow (branchName hb) localBs 1)
      in (rv\<lparr>viewPos := SetActiveRowIndex activeRow (viewPos rv),
              channels := channels rv @ [UpdateDisplay]\<rparr>, None))"

definition onTagsLoaded :: "RefView \<Rightarrow> Tag list \<Rightarrow> RefView \<times> string option" where
  "onTagsLoaded refView ts =
     (let rv = generateRenderedRefs refView
      in (rv\<lparr>channels := channels rv @ [UpdateDisplay]\<rparr>, None))"

subsection \<open>Navigation\<close>

text \<open>The loop of \<open>moveUpRef\<close>: down from the index until a selectable row or index 0.\<close>

fun scanUp :: "RenderedRef list \<Rightarrow> nat \<Rightarrow> panic + nat" where
  "scanUp rs 0 = Inr 0"
| "scanUp rs (Suc i) =
     (case rowAt rs (Suc i) of
        Inl p \<Rightarrow> Inl p
      | Inr r \<Rightarrow>
          if isSelectableRenderedRef (renderedRefType r) then Inr (Suc i) else scanUp rs i)"

definition moveUpRef :: "RefView \<Rightarrow> Action \<Rightarrow> panic + RefView \<times> string option" where
  "moveUpRef refView action =
     (if activeRowIndex (viewPos refView) = 0 then Inr (refView, None)
      else
        (let rs = RenderedRefs (renderedRefSet refView);
             startIndex = activeRowIndex (viewPos refView)
         in case scanUp rs (startIndex - 1) of
              Inl p \<Rightarrow> Inl p
            | Inr i \<Rightarrow>
                (case rowAt rs i of
                   Inl p \<Rightarrow> Inl p
                 | Inr r \<Rightarrow>
                     if isSelectableRenderedRef (renderedRefType r)
                     then Inr (refView\<lparr>viewPos := SetActiveRowIndex i (viewPos refView),
                                       channels := channels refView @ [UpdateDisplay]\<rparr>, None)
                     else Inr (refView, None))))"

text \<open>The loop of \<open>moveDownRef\<close>: up from the index until a selectable row or the last index.\<close>

function scanDown :: "RenderedRef list \<Rightarrow> nat \<Rightarrow> panic + nat" where
  "scanDown rs i =
     (if i < length rs - 1 then
        (case rowAt rs i of
           Inl p \<Rightarrow> Inl p
         | Inr r \<Rightarrow>
             if isSelectableRenderedRef (renderedRefType r) then Inr i
             else scanDown rs (i + 1))
      else Inr i)"
  by pat_completeness auto
termination
  by (relation "measure (\<lambda>(rs, i). length rs - i)") auto

declare scanDown.simps [simp del]

definition moveDownRef :: "RefView \<Rightarrow> Action \<Rightarrow> panic + RefView \<times> string option" where
  "moveDownRef refView action =
     (let rs = RenderedRefs (renderedRefSet refView);
          renderedRefNum = length rs
      in if renderedRefNum = 0 \<or> \<not> activeRowIndex (viewPos refView) < renderedRefNum - 1
         then Inr (refView, None)
         else
           (let startIndex = activeRowIndex (viewPos refView)
            in case scanDown rs (startIndex + 1) of
                 Inl p \<Rightarrow> Inl p
               | Inr i \<Rightarrow>
                   (case rowAt rs i of
                      Inl p \<Rightarrow> Inl p
                    | Inr r \<Rightarrow>
                        if isSelectableRenderedRef (renderedRefType r)
                        then Inr (refView\<lparr>viewPos := SetActiveRowIndex i (viewPos refView),
                                          channels := channels refView @ [UpdateDisplay]\<rparr>, None)
                        else Inr (refView, None))))"

text \<open>The loops of the page moves, with the counter \<open>pageSize\<close>.\<close>

fun moveUpRefPageLoop ::
  "nat \<Rightarrow> RefView \<Rightarrow> Action \<Rightarrow> panic + RefView \<times> string option" where
  "moveUpRefPageLoop 0 refView action = Inr (refView, None)"
| "moveUpRefPageLoop (Suc pageSize) refView action =
     (if activeRowIndex (viewPos refView) > 0 then
        (case moveUpRef refView action of
           Inl p \<Rightarrow> Inl p
         | Inr (rv, Some e) \<Rightarrow> Inr (rv, Some e)
         | Inr (rv, None) \<Rightarrow> moveUpRefPageLoop pageSize rv action)
      else Inr (refView, None))"

definition moveUpRefPage :: "RefView \<Rightarrow> Action \<Rightarrow> panic + RefView \<times> string option" where
  "moveUpRefPage refView action =
     moveUpRefPageLoop (uintSub (rows (viewDimension refView)) 2) refView action"

fun moveDownRefPageLoop ::
  "nat \<Rightarrow> nat \<Rightarrow> RefView \<Rightarrow> Action \<Rightarrow> panic + RefView \<times> string option" where
  "moveDownRefPageLoop 0 renderedRefNum refView action = Inr (refView, None)"
| "moveDownRefPageLoop (Suc pageSize) renderedRefNum refView action =
     (if activeRowIndex (viewPos refView) + 1 < renderedRefNum then
        (case moveDownRef refView action of
           Inl p \<Rightarrow> Inl p
         | Inr (rv, Some e) \<Rightarrow> Inr (rv, Some e)
         | Inr (rv, None) \<Rightarrow> moveDownRefPageLoop pageSize renderedRefNum rv action)
      else Inr (refView, None))"

definition moveDownRefPage :: "RefView \<Rightarrow> Action \<Rightarrow> panic + RefView \<times> string option" where
  "moveDownRefPage refView action =
     moveDownRefPageLoop (uintSub (rows (viewDimension refView)) 2)
       (length (RenderedRefs (renderedRefSet refView))) refView action"

definition moveToFirstRef :: "RefView \<Rightarrow> Action \<Rightarrow> RefView \<times> string option" where
  "moveToFirstRef refView action =
     (if snd (MoveToFirstLine (viewPos refView))
      then (refView\<lparr>viewPos := fst (MoveToFirstLine (viewPos refView)),
                    channels := channels refView @ [UpdateDisplay]\<rparr>, None)
      else (refView, None))"

definition moveToLastRef :: "RefView \<Rightarrow> Action \<Rightarrow> RefView \<times> string option" where
  "moveToLastRef refView action =
     (let renderedRefNum = length (RenderedRefs (renderedRefSet refView))
      in if snd (MoveToLastLine renderedRefNum (viewPos refView))
         then (refView\<lparr>viewPos := fst (MoveToLastLine renderedRefNum (viewPos refView)),
                       channels := channels refView @ [UpdateDisplay]\<rparr>, None)
         else (refView, None))"

subsection \<open>Selection\<close>

text \<open>\<open>strings.TrimLeft(s, " ")\<close> removes the leading space characters.\<close>

definition TrimLeftSpaces :: "string \<Rightarrow> string" where
  "TrimLeftSpaces s = dropWhile (\<lambda>c. c = CHR '' '') s"

definition selectRef :: "RefView \<Rightarrow> Action \<Rightarrow> panic + RefView \<times> string option" where
  "selectRef refView action =
     (case rowAt (RenderedRefs (renderedRefSet refView)) (activeRowIndex (viewPos refView)) of
        Inl p \<Rightarrow> Inl p
      | Inr renderedRef \<Rightarrow>
          if renderedRefType renderedRef = RvLocalBranchGroup
             \<or> renderedRefType renderedRef = RvRemoteBranchGroup
             \<or> renderedRefType renderedRef = RvTagGroup
          then
            (case refList renderedRef of
               None \<Rightarrow> Inl NilDereference
             | Some g \<Rightarrow>
                 if g < length (refLists refView) then
                   (let rv = generateRenderedRefs
                               (refView\<lparr>refLists := (refLists refView)
                                  [g := (refLists refView ! g)
                                     \<lparr>expanded := \<not> expanded (refLists refView ! g)\<rparr>]\<rparr>)
                    in Inr (rv\<lparr>channels := channels rv @ [UpdateDisplay]\<rparr>, None))
                 else Inl NilDereference)
          else if renderedRefType renderedRef = RvLocalBranch
             \<or> renderedRefType renderedRef = RvRemoteBranch
             \<or> renderedRefType renderedRef = RvTag
          then
            (case notifyRefListeners refView
                    (TrimLeftSpaces (refValue renderedRef)) (oid renderedRef) of
               (rv, Some e) \<Rightarrow> Inr (rv, Some e)
             | (rv, None) \<Rightarrow> Inr (rv\<lparr>channels := channels rv @ [UpdateDisplay]\<rparr>, None))
          else Inr (refView, None))"

subsection \<open>Filter commands\<close>

text \<open>
  \<open>CreateRefFilter\<close>, the filter compiler, is a parameter: for a query it gives the
  filter (a pointer, possibly nil) and the list of errors.
\<close>

definition addRefFilter ::
  "(string \<Rightarrow> RefFilter option \<times> string list) \<Rightarrow> RefView \<Rightarrow> Action
     \<Rightarrow> RefView \<times> string option" where
  "addRefFilter CreateRefFilter refView action =
     (case Args action of
        [] \<Rightarrow> (refView, Some ''Expected filter query argument'')
      | OtherArg _ # _ \<Rightarrow>
          (refView, Some ''Expected filter query argument to have type string'')
      | StringArg query # _ \<Rightarrow>
          (case CreateRefFilter query of
             (flt, errors) \<Rightarrow>
               if length errors > 0
               then (refView\<lparr>channels := channels refView @ [ReportErrors errors]\<rparr>, None)
               else
                 (let beforeRenderedRefNum = length (RenderedRefs (renderedRefSet refView));
                      l = AddChild (renderedRefSet refView) (newFilteredRenderedRefList flt);
                      afterRenderedRefNum = length (RenderedRefs l)
                  in (refView\<lparr>renderedRefSet := l,
                        channels := channels refView @
                          [ReportStatus
                             (if afterRenderedRefNum < beforeRenderedRefNum
                              then ''Filter applied'' else ''Filter had no effect'')]\<rparr>,
                      None))))"

definition removeRefFilter :: "RefView \<Rightarrow> Action \<Rightarrow> RefView \<times> string option" where
  "removeRefFilter refView action =
     (refView\<lparr>renderedRefSet := fst (RemoveChild (renderedRefSet refView)),
        channels := channels refView @
          [ReportStatus
             (if snd (RemoveChild (renderedRefSet refView))
              then ''Removed ref filter'' else ''No ref filter applied to remove'')]\<rparr>,
      None)"

subsection \<open>Rendering\<close>

text \<open>\<open>%v\<close> of a \<open>uint\<close> or of a non-negative \<open>int\<close>: the decimal digits.\<close>

fun showNat :: "nat \<Rightarrow> string" where
  "showNat n =
     (if n < 10 then [''0123456789'' ! n]
      else showNat (n div 10) @ [''0123456789'' ! (n mod 10)])"

declare showNat.simps [simp del]

definition refToTheme :: "RenderedRefType \<rightharpoonup> ThemeComponentID" where
  "refToTheme =
     [RvLocalBranchGroup \<mapsto> CmpRefviewLocalBranchesHeader,
      RvRemoteBranchGroup \<mapsto> CmpRefviewRemoteBranchesHeader,
      RvLocalBranch \<mapsto> CmpRefviewLocalBranch,
      RvRemoteBranch \<mapsto> CmpRefviewRemoteBranch,
      RvTagGroup \<mapsto> CmpRefviewTagsHeader,
      RvTag \<mapsto> CmpRefviewTag]"

text \<open>The variable \<open>footer\<close> of \<open>renderFooter\<close> when it reaches the final test.\<close>

definition footerText :: "RefView \<Rightarrow> RenderedRef \<Rightarrow> string" where
  "footerText refView selectedRenderedRef =
     (let filters = Children (renderedRefSet refView)
      in if filters > 0 then
           showNat filters @ '' filter'' @ (if filters > 1 then ''s'' else []) @ '' applied''
         else
           (case renderedRefType selectedRenderedRef of
              RvLocalBranchGroup \<Rightarrow>
                if branchesLoading (repoData refView) then ''Branches: Loading...''
                else ''Branches: '' @ showNat (length (localBranches (repoData refView)))
            | RvRemoteBranchGroup \<Rightarrow>
                if branchesLoading (repoData refView) then ''Remote Branches: Loading...''
                else ''Remote Branches: ''
                       @ showNat (length (remoteBranches (repoData refView)))
            | RvLocalBranch \<Rightarrow>
                ''Branch '' @ showNat (refNum selectedRenderedRef) @ '' of ''
                  @ showNat (length (localBranches (repoData refView)))
            | RvRemoteBranch \<Rightarrow>
                ''Remote Branch '' @ showNat (refNum selectedRenderedRef) @ '' of ''
                  @ showNat (length (remoteBranches (repoData refView)))
            | RvTagGroup \<Rightarrow>
                if tagsLoading (repoData refView) then ''Tags: Loading''
                else ''Tags: '' @ showNat (length (localTags (repoData refView)))
            | RvTag \<Rightarrow>
                ''Tag '' @ showNat (refNum selectedRenderedRef) @ '' of ''
                  @ showNat (length (localTags (repoData refView)))
            | RvSpace \<Rightarrow> []
            | RvLoading \<Rightarrow> []))"

text \<open>\<open>renderFooter\<close> gives the calls it makes on the window and its error.\<close>

definition renderFooter ::
  "RefView \<Rightarrow> RenderWindow \<Rightarrow> RenderedRef \<Rightarrow> winCall list \<times> string option" where
  "renderFooter refView win selectedRenderedRef =
     (let footer = footerText refView selectedRenderedRef
      in if footer \<noteq> []
         then ([SetFooter CmpRefviewFooter footer],
               winResult win (SetFooter CmpRefviewFooter footer))
         else ([], None))"

text \<open>
  The row loop of \<open>Render\<close>, from window row \<open>winRowIndex\<close> and row index \<open>refIndex\<close>:
  the calls made and the error that ended it.
\<close>

function renderRows ::
  "RenderWindow \<Rightarrow> nat \<Rightarrow> RenderedRef list \<Rightarrow> nat \<Rightarrow> nat \<Rightarrow> nat
     \<Rightarrow> winCall list \<times> string option" where
  "renderRows win startColumn rs viewRows winRowIndex refIndex =
     (if winRowIndex < viewRows \<and> refIndex < length rs then
        (let themeComponentID =
               (case refToTheme (renderedRefType (rs ! refIndex)) of
                  Some t \<Rightarrow> t | None \<Rightarrow> CmpNone);
             c = SetRow (winRowIndex + 1) startColumn themeComponentID
                   (refValue (rs ! refIndex))
         in case winResult win c of
              Some e \<Rightarrow> ([c], Some e)
            | None \<Rightarrow>
                (c # fst (renderRows win startColumn rs viewRows (winRowIndex + 1)
                            (refIndex + 1)),
                 snd (renderRows win startColumn rs viewRows (winRowIndex + 1)
                        (refIndex + 1))))
      else ([], None))"
  by pat_completeness auto
termination
  by (relation "measure (\<lambda>(win, startColumn, rs, viewRows, winRowIndex, refIndex).
        length rs - refIndex)") auto

declare renderRows.simps [simp del]

text \<open>
  \<open>Render\<close> gives the calls made on the window and either a panic or the view with the
  error returned. The row under the cursor is read at \<open>ActiveRowIndex\<close> once the rows,
  the selected row, the border and the title have been drawn without error.
\<close>

definition Render ::
  "RefView \<Rightarrow> RenderWindow \<Rightarrow> winCall list \<times> (panic + RefView \<times> string option)" where
  "Render refView win =
     (let rs = RenderedRefs (renderedRefSet refView);
          renderedRefNum = length rs;
          viewRows = uintSub (Rows win) 2;
          vp = DetermineViewStartRow viewRows renderedRefNum (viewPos refView);
          rv = refView\<lparr>viewDimension := ViewDimensions win, viewPos := vp\<rparr>;
          drawn = renderRows win (viewStartColumn vp) rs viewRows 0 (viewStartRowIndex vp);
          sel = SetSelectedRow (SelectedRowIndex vp + 1) (active rv);
          title = SetTitle CmpRefviewTitle ''Refs''
      in case snd drawn of
           Some e \<Rightarrow> (fst drawn, Inr (rv, Some e))
         | None \<Rightarrow>
        (case winResult win sel of
           Some e \<Rightarrow> (fst drawn @ [sel], Inr (rv, Some e))
         | None \<Rightarrow>
        (case winResult win title of
           Some e \<Rightarrow> (fst drawn @ [sel, DrawBorder, title], Inr (rv, Some e))
         | None \<Rightarrow>
        (case rowAt rs (activeRowIndex vp) of
           Inl p \<Rightarrow> (fst drawn @ [sel, DrawBorder, title], Inl p)
         | Inr selectedRenderedRef \<Rightarrow>
        (let foot = renderFooter rv win selectedRenderedRef;
             hl = Highlight (searchPattern (viewSearch rv)) CmpAllviewSearchMatch
         in case snd foot of
              Some e \<Rightarrow> (fst drawn @ [sel, DrawBorder, title] @ fst foot, Inr (rv, Some e))
            | None \<Rightarrow>
                if searchActive (viewSearch rv) \<and> lastSearchFoundMatch (viewSearch rv)
                then (fst drawn @ [sel, DrawBorder, title] @ fst foot @ [hl],
                      Inr (rv, winResult win hl))
                else (fst drawn @ [sel, DrawBorder, title] @ fst foot, Inr (rv, None)))))))"

section \<open>Notions of the specification\<close>

text \<open>A link's filter accepts a row when there is no filter or the filter matches.\<close>

definition accepts :: "RefFilter option \<Rightarrow> RenderedRef \<Rightarrow> bool" where
  "accepts f r = (case f of None \<Rightarrow> True | Some p \<Rightarrow> MatchesFilter p r)"

text \<open>A row passes a chain when the filter of every link accepts it.\<close>

fun passesAll :: "renderedRefList \<Rightarrow> RenderedRef \<Rightarrow> bool" where
  "passesAll (RenderedRefList c rs f) r =
     (accepts f r \<and> (case c of None \<Rightarrow> True | Some ch \<Rightarrow> passesAll ch r))"

text \<open>Every link of a chain holds no row.\<close>

fun allEmpty :: "renderedRefList \<Rightarrow> bool" where
  "allEmpty (RenderedRefList c rs f) =
     (rs = [] \<and> (case c of None \<Rightarrow> True | Some ch \<Rightarrow> allEmpty ch))"

text \<open>The filters of the links of a chain, head first.\<close>

fun filtersOf :: "renderedRefList \<Rightarrow> RefFilter option list" where
  "filtersOf (RenderedRefList c rs f) =
     f # (case c of None \<Rightarrow> [] | Some ch \<Rightarrow> filtersOf ch)"

text \<open>A sequence of \<open>AddFilter\<close> calls, one per filter of the list, in order.\<close>

fun addFilters :: "renderedRefList \<Rightarrow> RefFilter option list \<Rightarrow> renderedRefList" where
  "addFilters l [] = l"
| "addFilters l (f # fs) = addFilters (AddChild l (newFilteredRenderedRefList f)) fs"

text \<open>
  The rows of a regeneration as section 4.3 of the specification lists them: for each
  group, in order, its header row, the rows of its generator when the group is
  expanded, and one spacer row unless the group is the last.
\<close>

definition headerRow :: "nat \<Rightarrow> refList \<Rightarrow> RenderedRef" where
  "headerRow i rl =
     \<lparr>refValue = (if expanded rl then ''  [-] '' else ''  [+] '') @ name rl, oid = None,
      renderedRefType = groupRefType rl, refList = Some i, refNum = 0\<rparr>"

definition spacerRow :: RenderedRef where
  "spacerRow =
     \<lparr>refValue = [], oid = None, renderedRefType = RvSpace, refList = None, refNum = 0\<rparr>"

definition branchRow :: "RenderedRefType \<Rightarrow> nat \<times> Branch \<Rightarrow> RenderedRef" where
  "branchRow t kb =
     \<lparr>refValue = ''   '' @ branchName (snd kb), oid = branchOid (snd kb),
      renderedRefType = t, refList = None, refNum = fst kb\<rparr>"

definition tagRow :: "nat \<times> Tag \<Rightarrow> RenderedRef" where
  "tagRow kt =
     \<lparr>refValue = ''   '' @ tagName (snd kt), oid = tagOid (snd kt),
      renderedRefType = RvTag, refList = None, refNum = fst kt\<rparr>"

definition detachedHeadRow :: "Oid \<Rightarrow> RenderedRef" where
  "detachedHeadRow h =
     \<lparr>refValue = ''   HEAD detached at '' @ take 7 (oidString h), oid = Some h,
      renderedRefType = RvLocalBranch, refList = None, refNum = 1\<rparr>"

definition generatorRows :: "RefView \<Rightarrow> refList \<Rightarrow> RenderedRef list" where
  "generatorRows refView rl =
     (case renderer rl of
        GenerateBranches \<Rightarrow>
          if branchesLoading (repoData refView) then [loadingRow]
          else if groupRefType rl = RvLocalBranchGroup then
            (case headBranch (repoData refView) of
               None \<Rightarrow>
                 detachedHeadRow (head (repoData refView))
                   # map (branchRow RvLocalBranch)
                       (enumerate 2 (localBranches (repoData refView)))
             | Some _ \<Rightarrow>
                 map (branchRow RvLocalBranch)
                   (enumerate 1 (localBranches (repoData refView))))
          else map (branchRow RvRemoteBranch)
                 (enumerate 1 (remoteBranches (repoData refView)))
      | GenerateTags \<Rightarrow>
          if tagsLoading (repoData refView) then [loadingRow]
          else map tagRow (enumerate 1 (localTags (repoData refView))))"

definition groupRows :: "RefView \<Rightarrow> nat \<times> refList \<Rightarrow> RenderedRef list" where
  "groupRows refView irl =
     headerRow (fst irl) (snd irl)
       # (if expanded (snd irl) then generatorRows refView (snd irl) else [])
       @ (if fst irl \<noteq> length (refLists refView) - 1 then [spacerRow] else [])"

definition allRows :: "RefView \<Rightarrow> RenderedRef list" where
  "allRows refView = concat (map (groupRows refView) (enumerate 0 (refLists refView)))"

text \<open>The row under the cursor exists and is of a selectable kind.\<close>

definition cursorSelectable :: "RefView \<Rightarrow> bool" where
  "cursorSelectable refView =
     (case rowAt (RenderedRefs (renderedRefSet refView)) (activeRowIndex (viewPos refView)) of
        Inl p \<Rightarrow> False
      | Inr r \<Rightarrow> isSelectableRenderedRef (renderedRefType r))"

text \<open>The texts of the footers that a sequence of window calls sets, in order.\<close>

fun footerTexts :: "winCall list \<Rightarrow> string list" where
  "footerTexts [] = []"
| "footerTexts (SetFooter k t # cs) = t # footerTexts cs"
| "footerTexts (c # cs) = footerTexts cs"

section \<open>Example states\<close>

text \<open>
  A repository whose head is the commit \<open>abc1234000...\<close>, with two local branches, one
  remote branch and one tag: while it loads, loaded with HEAD on \<open>master\<close>, and loaded
  with HEAD detached.
\<close>

definition exOid :: Oid where
  "exOid = Oid 0xabc1234000000000000000000000000000000000"

definition exMaster :: Branch where
  "exMaster = \<lparr>branchName = ''master'', branchOid = Some exOid\<rparr>"

definition exDev :: Branch where
  "exDev = \<lparr>branchName = ''dev'', branchOid = Some exOid\<rparr>"

definition exOrigin :: Branch where
  "exOrigin = \<lparr>branchName = ''origin/master'', branchOid = Some exOid\<rparr>"

definition exTag :: Tag where
  "exTag = \<lparr>tagName = ''v1'', tagOid = Some exOid\<rparr>"

definition exRepoLoading :: RepoData where
  "exRepoLoading =
     \<lparr>localBranches = [], remoteBranches = [], branchesLoading = True, localTags = [],
      tagsLoading = True, head = exOid, headBranch = Some exMaster\<rparr>"

definition exRepoLoaded :: RepoData where
  "exRepoLoaded =
     \<lparr>localBranches = [exMaster, exDev], remoteBranches = [exOrigin],
      branchesLoading = False, localTags = [exTag], tagsLoading = False, head = exOid,
      headBranch = Some exMaster\<rparr>"

definition exRepoDetached :: RepoData where
  "exRepoDetached =
     \<lparr>localBranches = [exMaster, exDev], remoteBranches = [exOrigin],
      branchesLoading = False, localTags = [exTag], tagsLoading = False, head = exOid,
      headBranch = None\<rparr>"

definition exFiltered :: RefView where
  "exFiltered =
     (NewRefView exRepoLoading)
       \<lparr>renderedRefSet :=
          AddChild newRenderedRefList
            (newFilteredRenderedRefList (Some (\<lambda>r. renderedRefType r = RvLoading)))\<rparr>"

definition exDetachedView :: RefView where
  "exDetachedView = NewRefView exRepoDetached"

definition exCompile :: "string \<Rightarrow> RefFilter option \<times> string list" where
  "exCompile q =
     (if q = ''bad'' then (None, [''syntax error''])
      else (Some (\<lambda>r. renderedRefType r = RvLoading), []))"

definition exTwoRows :: RefView where
  "exTwoRows =
     (NewRefView exRepoLoading)
       \<lparr>renderedRefSet := RenderedRefList None [spacerRow, loadingRow] None\<rparr>"

definition exLoadedView :: RefView where
  "exLoadedView = generateRenderedRefs (NewRefView exRepoLoaded)"

definition exOk :: RefListener where
  "exOk refName h = None"

definition exRefuse :: RefListener where
  "exRefuse refName h = Some ''refused''"

definition exOnMaster :: "RefListener list \<Rightarrow> RefView" where
  "exOnMaster ls =
     exLoadedView\<lparr>viewPos := SetActiveRowIndex 1 (viewPos exLoadedView), refListeners := ls\<rparr>"

definition exWindow :: RenderWindow where
  "exWindow =
     \<lparr>Rows = 10, ViewDimensions = \<lparr>rows = 10, cols = 80\<rparr>, winResult = (\<lambda>c. None)\<rparr>"

definition exEmptyView :: RefView where
  "exEmptyView =
     fst (addRefFilter (\<lambda>q. (Some (\<lambda>r. False), [])) exLoadedView
            \<lparr>Args = [StringArg ''nothing'']\<rparr>)"

text \<open>
  The view as \<open>Initialise\<close> leaves it while the repository loads; the same after the
  \<open>Branches\<close> header under the cursor was selected, which collapses the group; and that
  view after the branches have loaded and the branch callback has run.
\<close>

definition exInitialView :: RefView where
  "exInitialView = generateRenderedRefs (NewRefView exRepoLoading)"

definition exCollapsedView :: RefView where
  "exCollapsedView =
     (case selectRef exInitialView \<lparr>Args = []\<rparr> of
        Inr (rv, e) \<Rightarrow> rv
      | Inl p \<Rightarrow> exInitialView)"

definition exAfterBranchLoad :: RefView where
  "exAfterBranchLoad =
     fst (onBranchesLoaded (exCollapsedView\<lparr>repoData := exRepoLoaded\<rparr>)
            [exMaster, exDev] [exOrigin])"

text \<open>
  The view while the repository loads, after a move to the last row, which is the header
  of the tags; the same after that header was selected, which expands the group; and that
  view after another move to the last row, which now is the loading row of the tags.
\<close>

definition exOnTagsHeader :: RefView where
  "exOnTagsHeader = fst (moveToLastRef exInitialView \<lparr>Args = []\<rparr>)"

definition exTagsExpanded :: RefView where
  "exTagsExpanded =
     (case selectRef exOnTagsHeader \<lparr>Args = []\<rparr> of
        Inr (rv, e) \<Rightarrow> rv
      | Inl p \<Rightarrow> exOnTagsHeader)"

definition exOnLoadingRow :: RefView where
  "exOnLoadingRow = fst (moveToLastRef exTagsExpanded \<lparr>Args = []\<rparr>)"

text \<open>
  The view while the repository loads with the filter of \<open>exCompile\<close> added once and
  twice: the loading row of the branches is the one visible row.
\<close>

definition exFilterOnce :: RefView where
  "exFilterOnce =
     fst (addRefFilter exCompile exInitialView \<lparr>Args = [StringArg ''loading'']\<rparr>)"

definition exFilterTwice :: RefView where
  "exFilterTwice =
     fst (addRefFilter exCompile exFilterOnce \<lparr>Args = [StringArg ''loading'']\<rparr>)"

section \<open>The chain\<close>

lemma Add_accepts:
  "Add (RenderedRefList c rs f) r =
     (if accepts f r
      then RenderedRefList (case c of None \<Rightarrow> None | Some ch \<Rightarrow> Some (Add ch r)) (rs @ [r]) f
      else RenderedRefList c rs f)"
  by (simp add: accepts_def split: option.splits)

lemma addAll_append: "addAll l (xs @ ys) = addAll (addAll l xs) ys"
  by (induction xs arbitrary: l) simp_all

lemma addAll_leaf:
  "addAll (RenderedRefList None xs f) rs = RenderedRefList None (xs @ filter (accepts f) rs) f"
  by (induction rs arbitrary: xs) (simp_all add: Add_accepts del: Add.simps)

lemma child_AddChild: "child (AddChild l new) \<noteq> None"
  by (cases l) (simp split: option.splits)

lemma RemoveChild_AddChild:
  "RemoveChild (AddChild l (newFilteredRenderedRefList p)) = (l, True)"
proof (induction l "newFilteredRenderedRefList p" rule: AddChild.induct)
  case (1 c rs f)
  show ?case
  proof (cases c)
    case None
    then show ?thesis
      by (simp add: newFilteredRenderedRefList_def addAll_leaf)
  next
    case (Some ch)
    with 1 child_AddChild [of ch "newFilteredRenderedRefList p"] show ?thesis
      by (auto split: option.splits)
  qed
qed

lemma RenderedRefs_AddChild:
  "RenderedRefs (AddChild l (newFilteredRenderedRefList p))
     = filter (accepts p) (RenderedRefs l)"
proof (induction l "newFilteredRenderedRefList p" rule: AddChild.induct)
  case (1 c rs f)
  then show ?case
    by (cases c) (simp_all add: newFilteredRenderedRefList_def addAll_leaf)
qed

lemma Children_AddChild:
  "Children (AddChild l (newFilteredRenderedRefList p)) = Suc (Children l)"
proof (induction l "newFilteredRenderedRefList p" rule: AddChild.induct)
  case (1 c rs f)
  then show ?case
    by (cases c) (simp_all add: newFilteredRenderedRefList_def addAll_leaf)
qed

lemma addFilters_snoc:
  "addFilters l (fs @ [f]) = AddChild (addFilters l fs) (newFilteredRenderedRefList f)"
  by (induction fs arbitrary: l) simp_all

text \<open>
  C3. For every chain and every filter, \<open>AddFilter\<close> followed at once by \<open>RemoveFilter\<close>
  gives back the visible rows and the filter depth there were before the \<open>AddFilter\<close>;
  indeed the whole chain is as before, and \<open>RemoveFilter\<close> reports a removal.
\<close>

theorem AddFilter_RemoveFilter_round_trip:
  "RenderedRefs (fst (RemoveChild (AddChild l (newFilteredRenderedRefList p))))
     = RenderedRefs l
   \<and> Children (fst (RemoveChild (AddChild l (newFilteredRenderedRefList p)))) = Children l
   \<and> RemoveChild (AddChild l (newFilteredRenderedRefList p)) = (l, True)"
  by (simp add: RemoveChild_AddChild)

theorem AddFilter_RemoveFilter_round_trip_witness:
  "RenderedRefs (fst (RemoveChild (AddChild
       (RenderedRefList None [spacerRow, loadingRow] None)
       (newFilteredRenderedRefList (Some (\<lambda>r. renderedRefType r = RvLoading))))))
     = [spacerRow, loadingRow]
   \<and> Children (fst (RemoveChild (AddChild
       (RenderedRefList None [spacerRow, loadingRow] None)
       (newFilteredRenderedRefList (Some (\<lambda>r. renderedRefType r = RvLoading))))))
     = 0"
  using AddFilter_RemoveFilter_round_trip
    [of "RenderedRefList None [spacerRow, loadingRow] None"
        "Some (\<lambda>r. renderedRefType r = RvLoading)"]
  by simp

text \<open>
  C4. In a sequence of \<open>AddFilter\<close> calls, the visible rows after the call number
  \<open>k + 1\<close> are the visible rows before it that its filter accepts, in the same
  order: an order-preserving subsequence.
\<close>

theorem AddFilter_visible_rows_subseq:
  assumes "k < length fs"
  shows "subseq (RenderedRefs (addFilters l (take (Suc k) fs)))
                (RenderedRefs (addFilters l (take k fs)))
         \<and> RenderedRefs (addFilters l (take (Suc k) fs))
             = filter (accepts (fs ! k)) (RenderedRefs (addFilters l (take k fs)))"
proof -
  from assms have "take (Suc k) fs = take k fs @ [fs ! k]"
    by (simp add: take_Suc_conv_app_nth)
  then have "RenderedRefs (addFilters l (take (Suc k) fs))
      = filter (accepts (fs ! k)) (RenderedRefs (addFilters l (take k fs)))"
    by (simp add: addFilters_snoc RenderedRefs_AddChild)
  then show ?thesis
    by simp
qed

theorem AddFilter_visible_rows_subseq_witness:
  "(1::nat) < length [Some (\<lambda>r. renderedRefType r \<noteq> RvSpace), Some (\<lambda>r. False)]
   \<and> subseq
       (RenderedRefs (addFilters (RenderedRefList None [spacerRow, loadingRow] None)
          (take (Suc 1) [Some (\<lambda>r. renderedRefType r \<noteq> RvSpace), Some (\<lambda>r. False)])))
       (RenderedRefs (addFilters (RenderedRefList None [spacerRow, loadingRow] None)
          (take 1 [Some (\<lambda>r. renderedRefType r \<noteq> RvSpace), Some (\<lambda>r. False)])))"
  using AddFilter_visible_rows_subseq
    [of 1 "[Some (\<lambda>r. renderedRefType r \<noteq> RvSpace), Some (\<lambda>r. False)]"
        "RenderedRefList None [spacerRow, loadingRow] None"]
  by simp

section \<open>Generation\<close>

lemma hexDigits_numeral:
  "hexDigits (numeral k) v = hexDigits (pred_numeral k) (v div 16) @ [hexDigit v]"
proof -
  have "hexDigits (Suc (pred_numeral k)) v
          = hexDigits (pred_numeral k) (v div 16) @ [hexDigit v]"
    by (rule hexDigits.simps)
  then show ?thesis
    by (simp only: numeral_eq_Suc)
qed

lemma length_hexDigits: "length (hexDigits n v) = n"
  by (induction n arbitrary: v) simp_all

lemma length_oidString: "length (oidString h) = 40"
  by (cases h) (simp add: length_hexDigits)

lemma exOid_string: "oidString exOid = ''abc1234000000000000000000000000000000000''"
  by (simp add: exOid_def hexDigits_numeral hexDigit_def)

lemma addBranches_rows:
  "addBranches bs t n l = addAll l (map (branchRow t) (enumerate n bs))"
  by (induction bs arbitrary: n l) (simp_all add: branchRow_def del: Add.simps)

lemma addTags_rows:
  "addTags ts i l = addAll l (map tagRow (enumerate (Suc i) ts))"
  by (induction ts arbitrary: i l) (simp_all add: tagRow_def del: Add.simps)

lemma callRenderer_rows:
  "callRenderer (renderer rl) refView rl l = addAll l (generatorRows refView rl)"
  by (cases "renderer rl")
     (simp_all add: generatorRows_def generateBranches_def generateTags_def
        addBranches_rows addTags_rows detachedHeadRow_def getDetachedHeadDisplayValue_def
        numeral_2_eq_2 del: Add.simps split: option.splits)

lemma generateGroups_rows:
  "generateGroups refView i rls l
     = addAll l (concat (map (groupRows refView) (enumerate i rls)))"
proof (induction rls arbitrary: i l)
  case Nil
  show ?case by simp
next
  case (Cons rl rest)
  show ?case
    by (simp add: Cons.IH groupRows_def headerRow_def spacerRow_def callRenderer_rows
          addAll_append Let_def del: Add.simps)
qed

lemma generateRenderedRefs_addAll:
  "generateRenderedRefs refView
     = refView\<lparr>renderedRefSet := addAll (Clear (renderedRefSet refView)) (allRows refView)\<rparr>"
  by (simp add: generateRenderedRefs_def generateGroups_rows allRows_def)

lemma RenderedRefs_Add:
  "RenderedRefs (Add l r) = RenderedRefs l @ (if passesAll l r then [r] else [])"
proof (induction l)
  case (RenderedRefList c rs f)
  then show ?case
    by (cases c) (simp_all add: Add_accepts del: Add.simps)
qed

lemma passesAll_Add: "passesAll (Add l r) x = passesAll l x"
proof (induction l)
  case (RenderedRefList c rs f)
  then show ?case
    by (cases c) (simp_all add: Add_accepts del: Add.simps)
qed

lemma RenderedRefs_addAll:
  "RenderedRefs (addAll l rs) = RenderedRefs l @ filter (passesAll l) rs"
proof (induction rs arbitrary: l)
  case Nil
  show ?case by simp
next
  case (Cons r rs)
  have "filter (passesAll (Add l r)) rs = filter (passesAll l) rs"
    by (rule filter_cong) (simp_all add: passesAll_Add)
  then show ?case
    by (simp add: Cons.IH RenderedRefs_Add del: Add.simps)
qed

lemma RenderedRefs_Clear: "RenderedRefs (Clear l) = []"
  by (induction l rule: Clear.induct) (simp split: option.splits)

lemma passesAll_Clear: "passesAll (Clear l) x = passesAll l x"
  by (induction l rule: Clear.induct) (simp split: option.splits)

lemma allEmpty_Clear: "allEmpty (Clear l)"
  by (induction l rule: Clear.induct) (simp split: option.splits)

lemma filtersOf_Clear: "filtersOf (Clear l) = filtersOf l"
  by (induction l rule: Clear.induct) (simp split: option.splits)

lemma Children_Clear: "Children (Clear l) = Children l"
  by (induction l rule: Clear.induct) (simp split: option.splits)

lemma Children_Add: "Children (Add l r) = Children l"
proof (induction l)
  case (RenderedRefList c rs f)
  then show ?case
    by (cases c) (simp_all add: Add_accepts del: Add.simps)
qed

lemma Children_addAll: "Children (addAll l rs) = Children l"
  by (induction rs arbitrary: l) (simp_all add: Children_Add del: Add.simps)

lemma renderedRefs_addAll_head:
  "refFilter l = None \<Longrightarrow> renderedRefs (addAll l rs) = renderedRefs l @ rs"
proof (induction rs arbitrary: l)
  case Nil
  show ?case by simp
next
  case (Cons r rs)
  obtain c xs f where l: "l = RenderedRefList c xs f" by (cases l)
  with Cons.prems have f: "f = None" by simp
  have "refFilter (Add l r) = None" "renderedRefs (Add l r) = renderedRefs l @ [r]"
    using l f by (simp_all add: Add_accepts accepts_def del: Add.simps)
  with Cons.IH [of "Add l r"] show ?case by simp
qed


lemma headerRow_marker:
  "(expanded rl \<longrightarrow> CHR ''-'' \<in> set (refValue (headerRow i rl)))
   \<and> (\<not> expanded rl \<longrightarrow> CHR ''+'' \<in> set (refValue (headerRow i rl)))"
  by (simp add: headerRow_def)

lemma map_fst_enumerate_upt: "map fst (enumerate n xs) = [n..<n + length xs]"
  by (simp add: enumerate_eq_zip)

lemma refNum_branchRows:
  "map refNum (map (branchRow t) (enumerate n bs)) = [n..<n + length bs]"
proof -
  have "refNum \<circ> branchRow t = fst"
    by (simp add: fun_eq_iff branchRow_def)
  then show ?thesis
    by (simp add: map_fst_enumerate_upt)
qed

lemma refValue_branchRows:
  "map refValue (map (branchRow t) (enumerate n bs)) = map (\<lambda>b. ''   '' @ branchName b) bs"
  by (induction bs arbitrary: n) (simp_all add: branchRow_def)

text \<open>
  C8. A regeneration clears every link of the chain (the filters stay) and then adds,
  through \<open>Add\<close> and in this order, the rows of \<open>allRows\<close>: for each group in the order
  of \<open>refLists\<close> its header row, whose text holds \<open>-\<close> when the group is expanded and
  \<open>+\<close> when it is collapsed, the rows of its generator only when it is expanded, and one
  spacer row unless the group is the last. The head link, which has no filter, holds
  exactly these rows afterwards. A generator whose collection is loading adds the one
  loading row and nothing else.
\<close>

theorem generateRenderedRefs_rows:
  "generateRenderedRefs refView
     = refView\<lparr>renderedRefSet := addAll (Clear (renderedRefSet refView)) (allRows refView)\<rparr>
   \<and> allEmpty (Clear (renderedRefSet refView))
   \<and> filtersOf (Clear (renderedRefSet refView)) = filtersOf (renderedRefSet refView)
   \<and> allRows refView
       = concat (map (\<lambda>irl. headerRow (fst irl) (snd irl)
                    # (if expanded (snd irl) then generatorRows refView (snd irl) else [])
                    @ (if fst irl \<noteq> length (refLists refView) - 1 then [spacerRow] else []))
                  (enumerate 0 (refLists refView)))
   \<and> callRenderer (renderer rl) refView rl l = addAll l (generatorRows refView rl)
   \<and> (refFilter (renderedRefSet refView) = None \<longrightarrow>
        renderedRefs (renderedRefSet (generateRenderedRefs refView)) = allRows refView)
   \<and> (expanded rl \<longrightarrow> CHR ''-'' \<in> set (refValue (headerRow i rl)))
   \<and> (\<not> expanded rl \<longrightarrow> CHR ''+'' \<in> set (refValue (headerRow i rl)))
   \<and> (branchesLoading (repoData refView) \<longrightarrow>
        generateBranches refView rl l = Add l loadingRow)
   \<and> (tagsLoading (repoData refView) \<longrightarrow> generateTags refView rl l = Add l loadingRow)
   \<and> renderedRefType loadingRow = RvLoading"
proof -
  have head_rows: "renderedRefs (renderedRefSet (generateRenderedRefs refView)) = allRows refView"
    if "refFilter (renderedRefSet refView) = None"
  proof -
    obtain c rs f where l: "renderedRefSet refView = RenderedRefList c rs f"
      by (cases "renderedRefSet refView")
    with that have "refFilter (Clear (renderedRefSet refView)) = None"
      "renderedRefs (Clear (renderedRefSet refView)) = []"
      by simp_all
    then show ?thesis
      by (simp add: generateRenderedRefs_addAll renderedRefs_addAll_head)
  qed
  have rows: "allRows refView
       = concat (map (\<lambda>irl. headerRow (fst irl) (snd irl)
                    # (if expanded (snd irl) then generatorRows refView (snd irl) else [])
                    @ (if fst irl \<noteq> length (refLists refView) - 1 then [spacerRow] else []))
                  (enumerate 0 (refLists refView)))"
    unfolding allRows_def groupRows_def ..
  show ?thesis
    using head_rows rows headerRow_marker [of rl i]
    by (simp add: generateRenderedRefs_addAll allEmpty_Clear filtersOf_Clear callRenderer_rows
          generateBranches_def generateTags_def loadingRow_def del: Add.simps)
qed

theorem generateRenderedRefs_rows_witness:
  "refFilter (renderedRefSet (NewRefView exRepoLoading)) = None
   \<and> expanded (NewRefLists ! 0) \<and> \<not> expanded (NewRefLists ! 1)
   \<and> branchesLoading (repoData (NewRefView exRepoLoading))
   \<and> tagsLoading (repoData (NewRefView exRepoLoading))
   \<and> renderedRefs (renderedRefSet (generateRenderedRefs (NewRefView exRepoLoading)))
       = allRows (NewRefView exRepoLoading)
   \<and> map refValue (allRows (NewRefView exRepoLoading))
       = [''  [-] Branches'', ''   Loading...'', [], ''  [+] Remote Branches'', [],
          ''  [+] Tags'']
   \<and> map renderedRefType (allRows (NewRefView exRepoLoading))
       = [RvLocalBranchGroup, RvLoading, RvSpace, RvRemoteBranchGroup, RvSpace, RvTagGroup]
   \<and> CHR ''-'' \<in> set (refValue (headerRow 0 (NewRefLists ! 0)))
   \<and> CHR ''+'' \<in> set (refValue (headerRow 1 (NewRefLists ! 1)))
   \<and> generateBranches (NewRefView exRepoLoading) (NewRefLists ! 0) newRenderedRefList
       = Add newRenderedRefList loadingRow
   \<and> generateTags (NewRefView exRepoLoading) (NewRefLists ! 2) newRenderedRefList
       = Add newRenderedRefList loadingRow"
proof -
  have rows: "allRows (NewRefView exRepoLoading)
      = [headerRow 0 (NewRefLists ! 0), loadingRow, spacerRow,
         headerRow 1 (NewRefLists ! 1), spacerRow, headerRow 2 (NewRefLists ! 2)]"
    by (simp add: allRows_def groupRows_def generatorRows_def NewRefView_def NewRefLists_def
          exRepoLoading_def numeral_2_eq_2)
  have vals: "map refValue (allRows (NewRefView exRepoLoading))
       = [''  [-] Branches'', ''   Loading...'', [], ''  [+] Remote Branches'', [],
          ''  [+] Tags'']"
    "map renderedRefType (allRows (NewRefView exRepoLoading))
       = [RvLocalBranchGroup, RvLoading, RvSpace, RvRemoteBranchGroup, RvSpace, RvTagGroup]"
    by (simp_all add: rows headerRow_def loadingRow_def spacerRow_def NewRefLists_def)
  have hyps: "refFilter (renderedRefSet (NewRefView exRepoLoading)) = None"
    "expanded (NewRefLists ! 0)" "\<not> expanded (NewRefLists ! 1)"
    "branchesLoading (repoData (NewRefView exRepoLoading))"
    "tagsLoading (repoData (NewRefView exRepoLoading))"
    by (simp_all add: NewRefView_def NewRefLists_def exRepoLoading_def newRenderedRefList_def
          newFilteredRenderedRefList_def)
  show ?thesis
    using hyps vals
      generateRenderedRefs_rows
        [of "NewRefView exRepoLoading" "NewRefLists ! 0" newRenderedRefList 0]
      generateRenderedRefs_rows
        [of "NewRefView exRepoLoading" "NewRefLists ! 1" newRenderedRefList 1]
      generateRenderedRefs_rows
        [of "NewRefView exRepoLoading" "NewRefLists ! 2" newRenderedRefList 2]
    by (simp del: Add.simps)
qed

text \<open>
  C10. In a regeneration every row of \<open>allRows\<close>, whatever its kind, goes through the
  same \<open>Add\<close> on the head of the chain, and the visible rows afterwards are the rows
  of \<open>allRows\<close> that the filter of every link accepts: a header, spacer or loading row
  that some installed filter rejects is not visible.
\<close>

theorem regeneration_filters_every_row_kind:
  "generateRenderedRefs refView
     = refView\<lparr>renderedRefSet := addAll (Clear (renderedRefSet refView)) (allRows refView)\<rparr>
   \<and> RenderedRefs (renderedRefSet (generateRenderedRefs refView))
       = filter (passesAll (renderedRefSet refView)) (allRows refView)
   \<and> (\<not> passesAll (renderedRefSet refView) r \<longrightarrow>
        r \<notin> set (RenderedRefs (renderedRefSet (generateRenderedRefs refView))))"
proof -
  have "filter (passesAll (Clear (renderedRefSet refView))) (allRows refView)
      = filter (passesAll (renderedRefSet refView)) (allRows refView)"
    by (rule filter_cong) (simp_all add: passesAll_Clear)
  then have "RenderedRefs (renderedRefSet (generateRenderedRefs refView))
       = filter (passesAll (renderedRefSet refView)) (allRows refView)"
    by (simp add: generateRenderedRefs_addAll RenderedRefs_addAll RenderedRefs_Clear)
  then show ?thesis
    by (simp add: generateRenderedRefs_addAll)
qed

theorem regeneration_filters_every_row_kind_witness:
  "\<not> passesAll (renderedRefSet exFiltered) spacerRow
   \<and> \<not> passesAll (renderedRefSet exFiltered) (headerRow 0 (NewRefLists ! 0))
   \<and> spacerRow \<in> set (allRows exFiltered)
   \<and> headerRow 0 (NewRefLists ! 0) \<in> set (allRows exFiltered)
   \<and> spacerRow \<notin> set (RenderedRefs (renderedRefSet (generateRenderedRefs exFiltered)))
   \<and> headerRow 0 (NewRefLists ! 0)
       \<notin> set (RenderedRefs (renderedRefSet (generateRenderedRefs exFiltered)))
   \<and> RenderedRefs (renderedRefSet (generateRenderedRefs exFiltered)) = [loadingRow]"
proof -
  have rows: "allRows exFiltered
      = [headerRow 0 (NewRefLists ! 0), loadingRow, spacerRow,
         headerRow 1 (NewRefLists ! 1), spacerRow, headerRow 2 (NewRefLists ! 2)]"
    by (simp add: exFiltered_def allRows_def groupRows_def generatorRows_def NewRefView_def
          NewRefLists_def exRepoLoading_def numeral_2_eq_2)
  have chain: "renderedRefSet exFiltered
      = RenderedRefList
          (Some (RenderedRefList None [] (Some (\<lambda>r. renderedRefType r = RvLoading)))) [] None"
    by (simp add: exFiltered_def newRenderedRefList_def newFilteredRenderedRefList_def)
  have pass: "\<not> passesAll (renderedRefSet exFiltered) spacerRow"
    "\<not> passesAll (renderedRefSet exFiltered) (headerRow 0 (NewRefLists ! 0))"
    "\<not> passesAll (renderedRefSet exFiltered) (headerRow 1 (NewRefLists ! 1))"
    "\<not> passesAll (renderedRefSet exFiltered) (headerRow 2 (NewRefLists ! 2))"
    "passesAll (renderedRefSet exFiltered) loadingRow"
    by (simp_all add: chain accepts_def MatchesFilter_def spacerRow_def headerRow_def
          loadingRow_def NewRefLists_def)
  show ?thesis
    using pass
      regeneration_filters_every_row_kind [of exFiltered spacerRow]
      regeneration_filters_every_row_kind [of exFiltered "headerRow 0 (NewRefLists ! 0)"]
    by (simp add: rows spacerRow_def loadingRow_def headerRow_def NewRefLists_def)
qed

text \<open>
  C7 (as amended). When the branches are loaded, the generator of the local branches
  adds, if HEAD is detached, first a row whose text is three spaces, the marker
  \<open>HEAD detached at\<close> with its trailing space, and the first 7 of the 40 characters
  of the head object id, with the head object id and the number 1, and then the local
  branches in the provider's order, numbered from 2; if HEAD is on a branch it adds
  the local branches numbered from 1. The text of a branch row is three spaces and
  the name of the branch.
\<close>

theorem generateBranches_local_rows:
  assumes "\<not> branchesLoading (repoData refView)"
    and "groupRefType rl = RvLocalBranchGroup"
  shows "(headBranch (repoData refView) = None \<longrightarrow>
            generateBranches refView rl l
              = addAll l
                  (\<lparr>refValue = ''   HEAD detached at ''
                                 @ take 7 (oidString (head (repoData refView))),
                    oid = Some (head (repoData refView)),
                    renderedRefType = RvLocalBranch, refList = None, refNum = 1\<rparr>
                   # map (branchRow RvLocalBranch)
                       (enumerate 2 (localBranches (repoData refView)))))
         \<and> (headBranch (repoData refView) \<noteq> None \<longrightarrow>
            generateBranches refView rl l
              = addAll l (map (branchRow RvLocalBranch)
                            (enumerate 1 (localBranches (repoData refView)))))
         \<and> length (take 7 (oidString (head (repoData refView)))) = 7
         \<and> getDetachedHeadDisplayValue (head (repoData refView))
             = ''HEAD detached at '' @ take 7 (oidString (head (repoData refView)))
         \<and> map refNum (map (branchRow RvLocalBranch) (enumerate n bs)) = [n..<n + length bs]
         \<and> map refValue (map (branchRow RvLocalBranch) (enumerate n bs))
             = map (\<lambda>b. ''   '' @ branchName b) bs
         \<and> map oid (map (branchRow RvLocalBranch) (enumerate n bs)) = map branchOid bs"
proof -
  have oids: "map oid (map (branchRow RvLocalBranch) (enumerate n bs)) = map branchOid bs"
    by (induction bs arbitrary: n) (simp_all add: branchRow_def)
  note rows = refNum_branchRows [of RvLocalBranch n bs]
    refValue_branchRows [of RvLocalBranch n bs] oids
  from assms rows show ?thesis
    by (simp add: generateBranches_def addBranches_rows getDetachedHeadDisplayValue_def
          length_oidString numeral_2_eq_2 del: Add.simps split: option.splits)
qed

theorem generateBranches_local_rows_witness:
  "\<not> branchesLoading (repoData exDetachedView)
   \<and> groupRefType (NewRefLists ! 0) = RvLocalBranchGroup
   \<and> headBranch (repoData exDetachedView) = None
   \<and> map refValue (renderedRefs
        (generateBranches exDetachedView (NewRefLists ! 0) newRenderedRefList))
       = [''   HEAD detached at abc1234'', ''   master'', ''   dev'']
   \<and> map refNum (renderedRefs
        (generateBranches exDetachedView (NewRefLists ! 0) newRenderedRefList))
       = [1, 2, 3]
   \<and> headBranch (repoData (NewRefView exRepoLoaded)) \<noteq> None
   \<and> map refNum (renderedRefs
        (generateBranches (NewRefView exRepoLoaded) (NewRefLists ! 0) newRenderedRefList))
       = [1, 2]"
proof -
  have hyps: "\<not> branchesLoading (repoData exDetachedView)"
    "groupRefType (NewRefLists ! 0) = RvLocalBranchGroup"
    "headBranch (repoData exDetachedView) = None"
    "\<not> branchesLoading (repoData (NewRefView exRepoLoaded))"
    "headBranch (repoData (NewRefView exRepoLoaded)) \<noteq> None"
    by (simp_all add: exDetachedView_def NewRefView_def NewRefLists_def exRepoDetached_def
          exRepoLoaded_def)
  have data: "localBranches (repoData exDetachedView) = [exMaster, exDev]"
    "head (repoData exDetachedView) = exOid"
    "localBranches (repoData (NewRefView exRepoLoaded)) = [exMaster, exDev]"
    by (simp_all add: exDetachedView_def NewRefView_def exRepoDetached_def exRepoLoaded_def)
  have new: "refFilter newRenderedRefList = None" "renderedRefs newRenderedRefList = []"
    by (simp_all add: newRenderedRefList_def newFilteredRenderedRefList_def)
  show ?thesis
    using hyps
      generateBranches_local_rows [OF hyps(1) hyps(2), of newRenderedRefList]
      generateBranches_local_rows [OF hyps(4) hyps(2), of newRenderedRefList]
    by (simp add: data newRenderedRefList_def newFilteredRenderedRefList_def exOid_string
          branchRow_def exMaster_def exDev_def)
qed

text \<open>
  C7 as stated fails on the text of the synthetic row: with HEAD detached at the commit
  \<open>abc1234000...\<close>, the first row of the local group reads \<open>HEAD detached at abc1234\<close>
  after three spaces of indentation, not from its first character.
\<close>

theorem detached_head_row_text_counterexample:
  "\<not> refValue (hd (renderedRefs
         (generateBranches exDetachedView (NewRefLists ! 0) newRenderedRefList)))
       = ''HEAD detached at '' @ take 7 (oidString (head (repoData exDetachedView)))"
proof -
  have "refValue (hd (renderedRefs
         (generateBranches exDetachedView (NewRefLists ! 0) newRenderedRefList)))
       = ''   HEAD detached at abc1234''"
    by (simp add: generateBranches_def exDetachedView_def NewRefView_def NewRefLists_def
          exRepoDetached_def getDetachedHeadDisplayValue_def exOid_string
          newRenderedRefList_def newFilteredRenderedRefList_def)
  then show ?thesis
    by (simp add: exDetachedView_def NewRefView_def exRepoDetached_def exOid_string)
qed

section \<open>Filter commands\<close>

lemma filtersOf_AddChild:
  "filtersOf (AddChild l (newFilteredRenderedRefList p)) = filtersOf l @ [p]"
proof (induction l "newFilteredRenderedRefList p" rule: AddChild.induct)
  case (1 c rs f)
  then show ?case
    by (cases c) (simp_all add: newFilteredRenderedRefList_def addAll_leaf)
qed

text \<open>
  C6. \<open>addRefFilter\<close> returns an error exactly when the argument list is empty or its
  first argument is not a string, and then leaves the view as it is. With a string
  query whose compilation reports errors it reports them, leaves the chain as it is and
  returns nil. Otherwise it installs the compiled filter as the new last link, filled
  with the rows of the previous last link that the filter accepts, and reports
  \<open>Filter applied\<close> when the number of visible rows went down and \<open>Filter had no effect\<close>
  when it did not.
\<close>

theorem addRefFilter_outcomes:
  "(snd (addRefFilter cf refView action) \<noteq> None
      \<longleftrightarrow> (Args action = [] \<or> (\<exists>x rest. Args action = OtherArg x # rest)))
   \<and> (snd (addRefFilter cf refView action) \<noteq> None \<longrightarrow>
        fst (addRefFilter cf refView action) = refView)
   \<and> (Args action = StringArg q # rest \<and> snd (cf q) \<noteq> [] \<longrightarrow>
        addRefFilter cf refView action
          = (refView\<lparr>channels := channels refView @ [ReportErrors (snd (cf q))]\<rparr>, None))
   \<and> (Args action = StringArg q # rest \<and> snd (cf q) = [] \<longrightarrow>
        addRefFilter cf refView action
          = (refView
               \<lparr>renderedRefSet :=
                  AddChild (renderedRefSet refView) (newFilteredRenderedRefList (fst (cf q))),
                channels := channels refView @
                  [ReportStatus
                     (if length (filter (accepts (fst (cf q)))
                                   (RenderedRefs (renderedRefSet refView)))
                         < length (RenderedRefs (renderedRefSet refView))
                      then ''Filter applied'' else ''Filter had no effect'')]\<rparr>,
             None)
        \<and> filtersOf (AddChild (renderedRefSet refView)
                       (newFilteredRenderedRefList (fst (cf q))))
            = filtersOf (renderedRefSet refView) @ [fst (cf q)]
        \<and> Children (AddChild (renderedRefSet refView)
                       (newFilteredRenderedRefList (fst (cf q))))
            = Suc (Children (renderedRefSet refView))
        \<and> RenderedRefs (AddChild (renderedRefSet refView)
                          (newFilteredRenderedRefList (fst (cf q))))
            = filter (accepts (fst (cf q))) (RenderedRefs (renderedRefSet refView)))"
proof -
  have err: "snd (addRefFilter cf refView action) \<noteq> None
      \<longleftrightarrow> (Args action = [] \<or> (\<exists>x rest. Args action = OtherArg x # rest))"
    by (simp add: addRefFilter_def Let_def split: list.splits ActionArg.splits prod.splits)
  have same: "fst (addRefFilter cf refView action) = refView"
    if "snd (addRefFilter cf refView action) \<noteq> None"
    using that
    by (simp add: addRefFilter_def Let_def
          split: list.splits ActionArg.splits prod.splits if_splits)
  have failed: "addRefFilter cf refView action
          = (refView\<lparr>channels := channels refView @ [ReportErrors (snd (cf q))]\<rparr>, None)"
    if "Args action = StringArg q # rest" "snd (cf q) \<noteq> []"
    using that by (cases "cf q") (simp add: addRefFilter_def)
  have installed: "addRefFilter cf refView action
          = (refView
               \<lparr>renderedRefSet :=
                  AddChild (renderedRefSet refView) (newFilteredRenderedRefList (fst (cf q))),
                channels := channels refView @
                  [ReportStatus
                     (if length (filter (accepts (fst (cf q)))
                                   (RenderedRefs (renderedRefSet refView)))
                         < length (RenderedRefs (renderedRefSet refView))
                      then ''Filter applied'' else ''Filter had no effect'')]\<rparr>,
             None)"
    if "Args action = StringArg q # rest" "snd (cf q) = []"
    using that
    by (cases "cf q") (simp add: addRefFilter_def Let_def RenderedRefs_AddChild)
  show ?thesis
    using err same failed installed
    by (simp add: filtersOf_AddChild Children_AddChild RenderedRefs_AddChild)
qed

theorem addRefFilter_outcomes_witness:
  "addRefFilter exCompile exTwoRows \<lparr>Args = []\<rparr>
     = (exTwoRows, Some ''Expected filter query argument'')
   \<and> addRefFilter exCompile exTwoRows \<lparr>Args = [OtherArg 0]\<rparr>
     = (exTwoRows, Some ''Expected filter query argument to have type string'')
   \<and> snd (exCompile ''bad'') \<noteq> []
   \<and> addRefFilter exCompile exTwoRows \<lparr>Args = [StringArg ''bad'']\<rparr>
     = (exTwoRows\<lparr>channels := [ReportErrors [''syntax error'']]\<rparr>, None)
   \<and> snd (exCompile ''x'') = []
   \<and> snd (addRefFilter exCompile exTwoRows \<lparr>Args = [StringArg ''x'']\<rparr>) = None
   \<and> channels (fst (addRefFilter exCompile exTwoRows \<lparr>Args = [StringArg ''x'']\<rparr>))
     = [ReportStatus ''Filter applied'']
   \<and> RenderedRefs (renderedRefSet
        (fst (addRefFilter exCompile exTwoRows \<lparr>Args = [StringArg ''x'']\<rparr>)))
     = [loadingRow]"
proof -
  have view: "channels exTwoRows = []"
    "renderedRefSet exTwoRows = RenderedRefList None [spacerRow, loadingRow] None"
    by (simp_all add: exTwoRows_def NewRefView_def)
  have rows: "accepts (fst (exCompile ''x'')) loadingRow"
    "\<not> accepts (fst (exCompile ''x'')) spacerRow"
    by (simp_all add: exCompile_def accepts_def MatchesFilter_def loadingRow_def spacerRow_def)
  have compiled: "snd (exCompile ''bad'') = [''syntax error'']" "snd (exCompile ''x'') = []"
    by (simp_all add: exCompile_def)
  show ?thesis
    using addRefFilter_outcomes [of exCompile exTwoRows "\<lparr>Args = []\<rparr>"]
      addRefFilter_outcomes [of exCompile exTwoRows "\<lparr>Args = [OtherArg 0]\<rparr>"]
      addRefFilter_outcomes
        [of exCompile exTwoRows "\<lparr>Args = [StringArg ''bad'']\<rparr>" "''bad''" "[]"]
      addRefFilter_outcomes
        [of exCompile exTwoRows "\<lparr>Args = [StringArg ''x'']\<rparr>" "''x''" "[]"]
    by (simp add: view rows compiled addRefFilter_def)
qed

section \<open>Selection\<close>

lemma notifyFrom_all_ok:
  "list_all (\<lambda>l. l refName h = None) ls \<Longrightarrow>
     notifyFrom i ls refName h = (map (\<lambda>k. (k, refName, h)) [i..<i + length ls], None)"
proof (induction ls arbitrary: i)
  case Nil
  show ?case by simp
next
  case (Cons l ls)
  have "[i..<i + length (l # ls)] = i # [Suc i..<Suc i + length ls]"
    by (simp add: upt_conv_Cons del: upt_Suc)
  with Cons show ?case
    by simp
qed

lemma notifyFrom_first_error:
  "k < length ls \<Longrightarrow> (ls ! k) refName h = Some e \<Longrightarrow>
   list_all (\<lambda>l. l refName h = None) (take k ls) \<Longrightarrow>
     notifyFrom i ls refName h = (map (\<lambda>j. (j, refName, h)) [i..<i + Suc k], Some e)"
proof (induction ls arbitrary: i k)
  case Nil
  then show ?case by simp
next
  case (Cons l ls)
  show ?case
  proof (cases k)
    case 0
    with Cons.prems show ?thesis
      by simp
  next
    case (Suc k')
    have "[i..<i + Suc k] = i # [Suc i..<Suc i + Suc k']"
      using Suc by (simp add: upt_conv_Cons del: upt_Suc)
    with Suc Cons.prems Cons.IH [of k' "Suc i"] show ?thesis
      by simp
  qed
qed

lemma generateRenderedRefs_fields:
  "channels (generateRenderedRefs refView) = channels refView"
  "notified (generateRenderedRefs refView) = notified refView"
  "refLists (generateRenderedRefs refView) = refLists refView"
  "viewPos (generateRenderedRefs refView) = viewPos refView"
  "repoData (generateRenderedRefs refView) = repoData refView"
  "refListeners (generateRenderedRefs refView) = refListeners refView"
  by (simp_all add: generateRenderedRefs_def)

text \<open>
  C5. Let \<open>r\<close> be the row under the cursor. If \<open>r\<close> is a branch or tag row, \<open>selectRef\<close>
  calls the listeners in the order of their registration with the text of \<open>r\<close> without
  its leading spaces and with the object id of \<open>r\<close>: all of them when none returns an
  error, and then it asks for a redraw and returns nil; when the listener at position
  \<open>k\<close> is the first to return an error, exactly the listeners up to \<open>k\<close> are called
  and that error is returned. If \<open>r\<close> is a group header, \<open>selectRef\<close> flips the
  \<open>expanded\<close> flag of the group the row points at, regenerates the rows, asks for a
  redraw and calls no listener.
\<close>

theorem selectRef_notifies_or_toggles:
  assumes "rowAt (RenderedRefs (renderedRefSet refView)) (activeRowIndex (viewPos refView))
             = Inr r"
  shows
    "((renderedRefType r = RvLocalBranch \<or> renderedRefType r = RvRemoteBranch
         \<or> renderedRefType r = RvTag)
        \<and> list_all (\<lambda>l. l (TrimLeftSpaces (refValue r)) (oid r) = None)
             (refListeners refView) \<longrightarrow>
       selectRef refView action
         = Inr (refView
                  \<lparr>notified := notified refView
                      @ map (\<lambda>k. (k, TrimLeftSpaces (refValue r), oid r))
                          [0..<length (refListeners refView)],
                   channels := channels refView @ [UpdateDisplay]\<rparr>, None))
     \<and> ((renderedRefType r = RvLocalBranch \<or> renderedRefType r = RvRemoteBranch
           \<or> renderedRefType r = RvTag)
          \<and> k < length (refListeners refView)
          \<and> (refListeners refView ! k) (TrimLeftSpaces (refValue r)) (oid r) = Some e
          \<and> list_all (\<lambda>l. l (TrimLeftSpaces (refValue r)) (oid r) = None)
               (take k (refListeners refView)) \<longrightarrow>
       selectRef refView action
         = Inr (refView
                  \<lparr>notified := notified refView
                      @ map (\<lambda>j. (j, TrimLeftSpaces (refValue r), oid r)) [0..<Suc k]\<rparr>,
                Some e))
     \<and> ((renderedRefType r = RvLocalBranchGroup \<or> renderedRefType r = RvRemoteBranchGroup
           \<or> renderedRefType r = RvTagGroup)
          \<and> refList r = Some g \<and> g < length (refLists refView) \<longrightarrow>
       (\<exists>rv. selectRef refView action = Inr (rv, None)
          \<and> refLists rv
               = (refLists refView)
                   [g := (refLists refView ! g)
                           \<lparr>expanded := \<not> expanded (refLists refView ! g)\<rparr>]
          \<and> renderedRefSet rv
               = addAll (Clear (renderedRefSet refView))
                   (allRows (refView\<lparr>refLists := (refLists refView)
                      [g := (refLists refView ! g)
                              \<lparr>expanded := \<not> expanded (refLists refView ! g)\<rparr>]\<rparr>))
          \<and> notified rv = notified refView
          \<and> channels rv = channels refView @ [UpdateDisplay]
          \<and> viewPos rv = viewPos refView))
     \<and> TrimLeftSpaces (refValue r) = dropWhile (\<lambda>c. c = CHR '' '') (refValue r)"
proof -
  let ?n = "TrimLeftSpaces (refValue r)"
  have entry_ok: "selectRef refView action
         = Inr (refView
                  \<lparr>notified := notified refView
                      @ map (\<lambda>k. (k, ?n, oid r)) [0..<length (refListeners refView)],
                   channels := channels refView @ [UpdateDisplay]\<rparr>, None)"
    if "renderedRefType r = RvLocalBranch \<or> renderedRefType r = RvRemoteBranch
          \<or> renderedRefType r = RvTag"
      and "list_all (\<lambda>l. l ?n (oid r) = None) (refListeners refView)"
    using that assms notifyFrom_all_ok [of ?n "oid r" "refListeners refView" 0]
    by (auto simp add: selectRef_def notifyRefListeners_def)
  have entry_err: "selectRef refView action
         = Inr (refView
                  \<lparr>notified := notified refView
                      @ map (\<lambda>j. (j, ?n, oid r)) [0..<Suc k]\<rparr>, Some e)"
    if "renderedRefType r = RvLocalBranch \<or> renderedRefType r = RvRemoteBranch
          \<or> renderedRefType r = RvTag"
      and "k < length (refListeners refView)"
      and "(refListeners refView ! k) ?n (oid r) = Some e"
      and "list_all (\<lambda>l. l ?n (oid r) = None) (take k (refListeners refView))"
    using that assms notifyFrom_first_error [of k "refListeners refView" ?n "oid r" e 0]
    by (auto simp add: selectRef_def notifyRefListeners_def)
  have group: "\<exists>rv. selectRef refView action = Inr (rv, None)
          \<and> refLists rv
               = (refLists refView)
                   [g := (refLists refView ! g)
                           \<lparr>expanded := \<not> expanded (refLists refView ! g)\<rparr>]
          \<and> renderedRefSet rv
               = addAll (Clear (renderedRefSet refView))
                   (allRows (refView\<lparr>refLists := (refLists refView)
                      [g := (refLists refView ! g)
                              \<lparr>expanded := \<not> expanded (refLists refView ! g)\<rparr>]\<rparr>))
          \<and> notified rv = notified refView
          \<and> channels rv = channels refView @ [UpdateDisplay]
          \<and> viewPos rv = viewPos refView"
    if "renderedRefType r = RvLocalBranchGroup \<or> renderedRefType r = RvRemoteBranchGroup
          \<or> renderedRefType r = RvTagGroup"
      and "refList r = Some g" and "g < length (refLists refView)"
    using that assms
    by (auto simp add: selectRef_def Let_def generateRenderedRefs_fields
          generateRenderedRefs_addAll)
  show ?thesis
    using entry_ok entry_err group
    by (simp add: TrimLeftSpaces_def)
qed

lemma exLoadedView_rows:
  "renderedRefSet exLoadedView
     = RenderedRefList None
         [headerRow 0 (NewRefLists ! 0), branchRow RvLocalBranch (1, exMaster),
          branchRow RvLocalBranch (2, exDev), spacerRow, headerRow 1 (NewRefLists ! 1),
          spacerRow, headerRow 2 (NewRefLists ! 2)] None"
  by (simp add: exLoadedView_def generateRenderedRefs_addAll NewRefView_def
        newRenderedRefList_def newFilteredRenderedRefList_def allRows_def groupRows_def
        generatorRows_def NewRefLists_def exRepoLoaded_def numeral_2_eq_2)

lemma exLoadedView_fields:
  "channels exLoadedView = []" "notified exLoadedView = []"
  "refLists exLoadedView = NewRefLists"
  "viewPos exLoadedView = \<lparr>activeRowIndex = 0, viewStartRowIndex = 0, viewStartColumn = 0\<rparr>"
  "repoData exLoadedView = exRepoLoaded"
  by (simp_all add: exLoadedView_def generateRenderedRefs_fields NewRefView_def)

theorem selectRef_notifies_or_toggles_witness:
  "rowAt (RenderedRefs (renderedRefSet (exOnMaster [exOk, exOk])))
       (activeRowIndex (viewPos (exOnMaster [exOk, exOk])))
     = Inr (branchRow RvLocalBranch (1, exMaster))
   \<and> refValue (branchRow RvLocalBranch (1, exMaster)) = ''   master''
   \<and> selectRef (exOnMaster [exOk, exOk]) \<lparr>Args = []\<rparr>
       = Inr ((exOnMaster [exOk, exOk])
                \<lparr>notified := [(0, ''master'', Some exOid), (1, ''master'', Some exOid)],
                 channels := [UpdateDisplay]\<rparr>, None)
   \<and> selectRef (exOnMaster [exOk, exRefuse, exOk]) \<lparr>Args = []\<rparr>
       = Inr ((exOnMaster [exOk, exRefuse, exOk])
                \<lparr>notified := [(0, ''master'', Some exOid), (1, ''master'', Some exOid)]\<rparr>,
              Some ''refused'')
   \<and> rowAt (RenderedRefs (renderedRefSet exLoadedView)) (activeRowIndex (viewPos exLoadedView))
       = Inr (headerRow 0 (NewRefLists ! 0))
   \<and> (case selectRef exLoadedView \<lparr>Args = []\<rparr> of
         Inl p \<Rightarrow> False
       | Inr (rv, e) \<Rightarrow>
           e = None \<and> notified rv = [] \<and> channels rv = [UpdateDisplay]
           \<and> map expanded (refLists rv) = [False, False, False]
           \<and> map refValue (RenderedRefs (renderedRefSet rv))
               = [''  [+] Branches'', [], ''  [+] Remote Branches'', [], ''  [+] Tags''])"
proof -
  have on_master: "renderedRefSet (exOnMaster ls) = renderedRefSet exLoadedView"
    "activeRowIndex (viewPos (exOnMaster ls)) = 1" "refListeners (exOnMaster ls) = ls"
    "notified (exOnMaster ls) = []" "channels (exOnMaster ls) = []" for ls
    by (simp_all add: exOnMaster_def SetActiveRowIndex_def exLoadedView_fields)
  have row1: "rowAt (RenderedRefs (renderedRefSet (exOnMaster ls)))
       (activeRowIndex (viewPos (exOnMaster ls))) = Inr (branchRow RvLocalBranch (1, exMaster))"
    for ls
    by (simp add: on_master exLoadedView_rows rowAt_def)
  have row0: "rowAt (RenderedRefs (renderedRefSet exLoadedView))
       (activeRowIndex (viewPos exLoadedView)) = Inr (headerRow 0 (NewRefLists ! 0))"
    by (simp add: exLoadedView_rows exLoadedView_fields rowAt_def)
  have master: "renderedRefType (branchRow RvLocalBranch (n, exMaster)) = RvLocalBranch"
    "refValue (branchRow RvLocalBranch (n, exMaster)) = ''   master''"
    "TrimLeftSpaces (refValue (branchRow RvLocalBranch (n, exMaster))) = ''master''"
    "oid (branchRow RvLocalBranch (n, exMaster)) = Some exOid" for n
    by (simp_all add: branchRow_def exMaster_def TrimLeftSpaces_def)
  have header: "renderedRefType (headerRow 0 (NewRefLists ! 0)) = RvLocalBranchGroup"
    "refList (headerRow 0 (NewRefLists ! 0)) = Some 0" "0 < length (refLists exLoadedView)"
    by (simp_all add: headerRow_def NewRefLists_def exLoadedView_fields)
  have ok2: "selectRef (exOnMaster [exOk, exOk]) \<lparr>Args = []\<rparr>
       = Inr ((exOnMaster [exOk, exOk])
                \<lparr>notified := [(0, ''master'', Some exOid), (1, ''master'', Some exOid)],
                 channels := [UpdateDisplay]\<rparr>, None)"
    using selectRef_notifies_or_toggles
      [OF row1 [of "[exOk, exOk]"], where action = "\<lparr>Args = []\<rparr>"]
    by (simp add: master on_master exOk_def upt_conv_Cons del: upt_Suc)
  have refused: "selectRef (exOnMaster [exOk, exRefuse, exOk]) \<lparr>Args = []\<rparr>
       = Inr ((exOnMaster [exOk, exRefuse, exOk])
                \<lparr>notified := [(0, ''master'', Some exOid), (1, ''master'', Some exOid)]\<rparr>,
              Some ''refused'')"
    using selectRef_notifies_or_toggles
      [OF row1 [of "[exOk, exRefuse, exOk]"],
        where k = 1 and e = "''refused''" and action = "\<lparr>Args = []\<rparr>"]
    by (simp add: master on_master exOk_def exRefuse_def upt_conv_Cons del: upt_Suc)
  have toggled: "case selectRef exLoadedView \<lparr>Args = []\<rparr> of
         Inl p \<Rightarrow> False
       | Inr (rv, e) \<Rightarrow>
           e = None \<and> notified rv = [] \<and> channels rv = [UpdateDisplay]
           \<and> map expanded (refLists rv) = [False, False, False]
           \<and> map refValue (RenderedRefs (renderedRefSet rv))
               = [''  [+] Branches'', [], ''  [+] Remote Branches'', [], ''  [+] Tags'']"
    using selectRef_notifies_or_toggles
      [OF row0, where g = 0 and action = "\<lparr>Args = []\<rparr>"] header
    by (auto simp add: exLoadedView_fields exLoadedView_rows NewRefLists_def allRows_def
          groupRows_def headerRow_def spacerRow_def numeral_2_eq_2)
  show ?thesis
    using row1 [of "[exOk, exOk]"] master(2) [of 1] ok2 refused row0 toggled
    by simp
qed

section \<open>Rendering\<close>

lemma DetermineViewStartRow_active:
  "activeRowIndex (DetermineViewStartRow viewRows rowNum vp) = activeRowIndex vp"
  by (simp add: DetermineViewStartRow_def)

text \<open>
  C2. \<open>selectRef\<close> and \<open>Render\<close> read the row at the cursor's index with no test of the
  index. When the index is not below the number of visible rows, as it is whenever
  there is no visible row, \<open>selectRef\<close> panics with an index out of range; \<open>Render\<close>
  never returns without an error, and panics with an index out of range as soon as the
  window accepts the calls that draw the rows, the selected row and the title.
\<close>

theorem cursor_row_read_unchecked:
  assumes "length (RenderedRefs (renderedRefSet refView)) \<le> activeRowIndex (viewPos refView)"
  shows "selectRef refView action = Inl IndexOutOfRange
         \<and> (snd (Render refView win) = Inl IndexOutOfRange
              \<or> (\<exists>rv e. snd (Render refView win) = Inr (rv, Some e)))
         \<and> ((\<forall>c. winResult win c = None) \<longrightarrow>
              snd (Render refView win) = Inl IndexOutOfRange)"
proof -
  let ?rs = "RenderedRefs (renderedRefSet refView)"
  let ?vp = "DetermineViewStartRow (uintSub (Rows win) 2) (length ?rs) (viewPos refView)"
  from assms have sel: "selectRef refView action = Inl IndexOutOfRange"
    by (simp add: selectRef_def rowAt_def)
  from assms have at: "rowAt ?rs (activeRowIndex ?vp) = Inl IndexOutOfRange"
    by (simp add: rowAt_def DetermineViewStartRow_active)
  have rend: "snd (Render refView win) = Inl IndexOutOfRange
              \<or> (\<exists>rv e. snd (Render refView win) = Inr (rv, Some e))"
    using at by (simp add: Render_def Let_def split: option.splits)
  have rows_ok: "snd (renderRows win col rs viewRows w i) = None"
    if "\<forall>c. winResult win c = None" for col rs viewRows w i
    using that
    by (induction win col rs viewRows w i rule: renderRows.induct)
       (subst renderRows.simps, simp add: Let_def)
  have "snd (Render refView win) = Inl IndexOutOfRange" if "\<forall>c. winResult win c = None"
    using that at rows_ok [OF that]
    by (simp add: Render_def Let_def)
  with sel rend show ?thesis
    by simp
qed

theorem cursor_row_read_unchecked_witness:
  "RenderedRefs (renderedRefSet exEmptyView) = []
   \<and> length (RenderedRefs (renderedRefSet exEmptyView)) \<le> activeRowIndex (viewPos exEmptyView)
   \<and> selectRef exEmptyView \<lparr>Args = []\<rparr> = Inl IndexOutOfRange
   \<and> snd (Render exEmptyView exWindow) = Inl IndexOutOfRange"
proof -
  have rows: "RenderedRefs (renderedRefSet exEmptyView) = []"
    by (simp add: exEmptyView_def addRefFilter_def Let_def RenderedRefs_AddChild accepts_def
          MatchesFilter_def)
  have win: "\<forall>c. winResult exWindow c = None"
    by (simp add: exWindow_def)
  show ?thesis
    using rows win
      cursor_row_read_unchecked [of exEmptyView "\<lparr>Args = []\<rparr>" exWindow]
    by simp
qed

lemma showNat_1: "showNat (Suc 0) = ''1''"
  by (simp add: showNat.simps)

lemma showNat_digits:
  "showNat 0 = ''0''" "showNat 2 = ''2''" "showNat (Suc (Suc 0)) = ''2''"
  by (simp_all add: showNat.simps)

section \<open>Navigation\<close>

lemma scanUp_in_range:
  "i < length rs \<Longrightarrow> \<exists>j. scanUp rs i = Inr j \<and> j \<le> i"
proof (induction i)
  case 0
  show ?case by simp
next
  case (Suc i)
  then obtain j where "scanUp rs i = Inr j" "j \<le> i"
    by auto
  with Suc.prems show ?case
    by (simp add: rowAt_def)
qed

lemma scanDown_in_range:
  "i < length rs \<Longrightarrow> \<exists>j. scanDown rs i = Inr j \<and> i \<le> j \<and> j < length rs"
proof (induction rs i rule: scanDown.induct)
  case (1 rs i)
  show ?case
  proof (cases "i < length rs - 1 \<and> \<not> isSelectableRenderedRef (renderedRefType (rs ! i))")
    case True
    then have "i + 1 < length rs"
      by arith
    with True "1.prems" "1.IH" [of "rs ! i"] obtain j
      where "scanDown rs (i + 1) = Inr j" "i + 1 \<le> j" "j < length rs"
      by (auto simp add: rowAt_def)
    with True "1.prems" show ?thesis
      by (subst scanDown.simps) (simp add: rowAt_def)
  next
    case False
    with "1.prems" show ?thesis
      by (subst scanDown.simps) (auto simp add: rowAt_def)
  qed
qed

lemma moveUpRef_selectable:
  assumes "cursorSelectable refView"
  shows "\<exists>rv. moveUpRef refView action = Inr (rv, None) \<and> cursorSelectable rv
           \<and> renderedRefSet rv = renderedRefSet refView
           \<and> viewDimension rv = viewDimension refView"
proof (cases "activeRowIndex (viewPos refView) = 0")
  case True
  with assms show ?thesis
    by (simp add: moveUpRef_def)
next
  case False
  let ?rs = "RenderedRefs (renderedRefSet refView)"
  from assms have "activeRowIndex (viewPos refView) < length ?rs"
    by (simp add: cursorSelectable_def rowAt_def split: if_splits)
  with False have "activeRowIndex (viewPos refView) - 1 < length ?rs"
    by simp
  then obtain j where j: "scanUp ?rs (activeRowIndex (viewPos refView) - 1) = Inr j"
    "j < length ?rs"
    using scanUp_in_range [of "activeRowIndex (viewPos refView) - 1" ?rs] by auto
  with False assms show ?thesis
    by (simp add: moveUpRef_def Let_def rowAt_def cursorSelectable_def SetActiveRowIndex_def)
qed

lemma moveDownRef_selectable:
  assumes "cursorSelectable refView"
  shows "\<exists>rv. moveDownRef refView action = Inr (rv, None) \<and> cursorSelectable rv
           \<and> renderedRefSet rv = renderedRefSet refView
           \<and> viewDimension rv = viewDimension refView"
proof -
  let ?rs = "RenderedRefs (renderedRefSet refView)"
  show ?thesis
  proof (cases "length ?rs = 0 \<or> \<not> activeRowIndex (viewPos refView) < length ?rs - 1")
    case True
    with assms show ?thesis
      by (auto simp add: moveDownRef_def Let_def)
  next
    case False
    then have "activeRowIndex (viewPos refView) + 1 < length ?rs"
      by arith
    then obtain j where j: "scanDown ?rs (activeRowIndex (viewPos refView) + 1) = Inr j"
      "j < length ?rs"
      using scanDown_in_range [of "activeRowIndex (viewPos refView) + 1" ?rs] by auto
    with False assms show ?thesis
      by (simp add: moveDownRef_def Let_def rowAt_def cursorSelectable_def
            SetActiveRowIndex_def)
  qed
qed

lemma moveUpRefPageLoop_selectable:
  "cursorSelectable refView \<Longrightarrow>
     \<exists>rv. moveUpRefPageLoop pageSize refView action = Inr (rv, None) \<and> cursorSelectable rv"
proof (induction pageSize arbitrary: refView)
  case 0
  then show ?case by simp
next
  case (Suc pageSize)
  from moveUpRef_selectable [OF Suc.prems, of action] obtain rv
    where rv: "moveUpRef refView action = Inr (rv, None)" "cursorSelectable rv"
    by auto
  from Suc.IH [OF rv(2)] rv(1) Suc.prems show ?case
    by simp
qed

lemma moveDownRefPageLoop_selectable:
  "cursorSelectable refView \<Longrightarrow>
     \<exists>rv. moveDownRefPageLoop pageSize renderedRefNum refView action = Inr (rv, None)
       \<and> cursorSelectable rv"
proof (induction pageSize arbitrary: refView)
  case 0
  then show ?case by simp
next
  case (Suc pageSize)
  from moveDownRef_selectable [OF Suc.prems, of action] obtain rv
    where rv: "moveDownRef refView action = Inr (rv, None)" "cursorSelectable rv"
    by auto
  from Suc.IH [OF rv(2)] rv(1) Suc.prems show ?case
    by simp
qed

lemma exInitialView_state:
  "renderedRefSet exInitialView
     = RenderedRefList None
         [headerRow 0 (NewRefLists ! 0), loadingRow, spacerRow, headerRow 1 (NewRefLists ! 1),
          spacerRow, headerRow 2 (NewRefLists ! 2)] None"
  "refLists exInitialView = NewRefLists"
  "viewPos exInitialView = \<lparr>activeRowIndex = 0, viewStartRowIndex = 0, viewStartColumn = 0\<rparr>"
  "repoData exInitialView = exRepoLoading"
  by (simp_all add: exInitialView_def generateRenderedRefs_addAll NewRefView_def
        newRenderedRefList_def newFilteredRenderedRefList_def allRows_def groupRows_def
        generatorRows_def NewRefLists_def exRepoLoading_def numeral_2_eq_2)

lemma exCollapsedView_state:
  "renderedRefSet exCollapsedView
     = RenderedRefList None
         [headerRow 0 ((NewRefLists ! 0)\<lparr>expanded := False\<rparr>), spacerRow,
          headerRow 1 (NewRefLists ! 1), spacerRow, headerRow 2 (NewRefLists ! 2)] None"
  "refLists exCollapsedView = NewRefLists[0 := (NewRefLists ! 0)\<lparr>expanded := False\<rparr>]"
  "viewPos exCollapsedView = \<lparr>activeRowIndex = 0, viewStartRowIndex = 0, viewStartColumn = 0\<rparr>"
  by (simp_all add: exCollapsedView_def selectRef_def exInitialView_state rowAt_def Let_def
        generateRenderedRefs_addAll generateRenderedRefs_fields
        allRows_def groupRows_def headerRow_def
        generatorRows_def NewRefLists_def numeral_2_eq_2)

lemma exAfterBranchLoad_state:
  "renderedRefSet exAfterBranchLoad
     = RenderedRefList None
         [headerRow 0 ((NewRefLists ! 0)\<lparr>expanded := False\<rparr>), spacerRow,
          headerRow 1 (NewRefLists ! 1), spacerRow, headerRow 2 (NewRefLists ! 2)] None"
  "activeRowIndex (viewPos exAfterBranchLoad) = 1"
  by (simp_all add: exAfterBranchLoad_def onBranchesLoaded_def exCollapsedView_state Let_def
        generateRenderedRefs_addAll generateRenderedRefs_fields SetActiveRowIndex_def
        allRows_def groupRows_def exRepoLoaded_def exMaster_def
        generatorRows_def NewRefLists_def numeral_2_eq_2)

text \<open>
  C1 (as amended). A regeneration leaves the cursor's selected index as it is: nothing
  moves it to a selectable row. The moves up and down by a line and by a page keep the
  cursor on a selectable row: from a cursor on a selectable row each of them completes
  without a panic or an error and leaves the cursor on a selectable row.
\<close>

theorem cursor_selectable_after_moves:
  "viewPos (generateRenderedRefs refView) = viewPos refView
   \<and> (cursorSelectable refView \<longrightarrow>
        (\<exists>rv. moveUpRef refView action = Inr (rv, None) \<and> cursorSelectable rv)
        \<and> (\<exists>rv. moveDownRef refView action = Inr (rv, None) \<and> cursorSelectable rv)
        \<and> (\<exists>rv. moveUpRefPage refView action = Inr (rv, None) \<and> cursorSelectable rv)
        \<and> (\<exists>rv. moveDownRefPage refView action = Inr (rv, None) \<and> cursorSelectable rv))"
proof -
  have "\<exists>rv. moveUpRef refView action = Inr (rv, None) \<and> cursorSelectable rv"
    "\<exists>rv. moveDownRef refView action = Inr (rv, None) \<and> cursorSelectable rv"
    if "cursorSelectable refView"
    using moveUpRef_selectable [OF that, of action] moveDownRef_selectable [OF that, of action]
    by auto
  then show ?thesis
    using moveUpRefPageLoop_selectable [of refView _ action]
      moveDownRefPageLoop_selectable [of refView _ _ action]
    by (simp add: generateRenderedRefs_fields moveUpRefPage_def moveDownRefPage_def)
qed

theorem cursor_selectable_after_moves_witness:
  "cursorSelectable (exOnMaster [])
   \<and> viewPos (generateRenderedRefs (exOnMaster [])) = viewPos (exOnMaster [])
   \<and> (\<exists>rv. moveUpRef (exOnMaster []) \<lparr>Args = []\<rparr> = Inr (rv, None) \<and> cursorSelectable rv)
   \<and> (\<exists>rv. moveDownRef (exOnMaster []) \<lparr>Args = []\<rparr> = Inr (rv, None)
         \<and> cursorSelectable rv)
   \<and> (\<exists>rv. moveUpRefPage (exOnMaster []) \<lparr>Args = []\<rparr> = Inr (rv, None)
         \<and> cursorSelectable rv)
   \<and> (\<exists>rv. moveDownRefPage (exOnMaster []) \<lparr>Args = []\<rparr> = Inr (rv, None)
         \<and> cursorSelectable rv)"
proof -
  have "cursorSelectable (exOnMaster [])"
    by (simp add: cursorSelectable_def exOnMaster_def SetActiveRowIndex_def exLoadedView_rows
          rowAt_def branchRow_def isSelectableRenderedRef_def)
  then show ?thesis
    using cursor_selectable_after_moves [of "exOnMaster []" "\<lparr>Args = []\<rparr>"]
    by simp
qed

text \<open>
  C1 as stated does not hold. The \<open>Branches\<close> group is collapsed while the branches
  load; the cursor is on its header. When the branches have loaded, the callback regenerates
  the rows and sets the selected index to 1, the row the head branch would have in an
  expanded group: that row is the spacer after the header, although the three headers are
  selectable. A further regeneration leaves the cursor there.
\<close>

theorem cursor_on_spacer_after_load_counterexample:
  "cursorSelectable exCollapsedView
   \<and> map renderedRefType (RenderedRefs (renderedRefSet exAfterBranchLoad))
       = [RvLocalBranchGroup, RvSpace, RvRemoteBranchGroup, RvSpace, RvTagGroup]
   \<and> activeRowIndex (viewPos exAfterBranchLoad) = 1
   \<and> \<not> cursorSelectable exAfterBranchLoad
   \<and> \<not> cursorSelectable (generateRenderedRefs exAfterBranchLoad)"
proof -
  have "cursorSelectable exCollapsedView"
    by (simp add: cursorSelectable_def exCollapsedView_state rowAt_def headerRow_def
          NewRefLists_def isSelectableRenderedRef_def)
  moreover have "map renderedRefType (RenderedRefs (renderedRefSet exAfterBranchLoad))
       = [RvLocalBranchGroup, RvSpace, RvRemoteBranchGroup, RvSpace, RvTagGroup]"
    by (simp add: exAfterBranchLoad_state headerRow_def spacerRow_def NewRefLists_def)
  moreover have "\<not> cursorSelectable exAfterBranchLoad"
    by (simp add: cursorSelectable_def exAfterBranchLoad_state rowAt_def spacerRow_def
          isSelectableRenderedRef_def)
  moreover have "renderedRefSet (generateRenderedRefs exAfterBranchLoad)
       = renderedRefSet exAfterBranchLoad"
    by (simp add: exAfterBranchLoad_def onBranchesLoaded_def exCollapsedView_state Let_def
        generateRenderedRefs_addAll generateRenderedRefs_fields SetActiveRowIndex_def
        allRows_def groupRows_def exRepoLoaded_def exMaster_def
        generatorRows_def NewRefLists_def numeral_2_eq_2)
  then have "\<not> cursorSelectable (generateRenderedRefs exAfterBranchLoad)"
    using \<open>\<not> cursorSelectable exAfterBranchLoad\<close>
    by (simp add: cursorSelectable_def generateRenderedRefs_fields)
  ultimately show ?thesis
    using exAfterBranchLoad_state(2) by simp
qed

section \<open>The footer\<close>

lemma footerTexts_append: "footerTexts (xs @ ys) = footerTexts xs @ footerTexts ys"
  by (induction xs rule: footerTexts.induct) simp_all

lemma renderRows_accepted:
  assumes "\<forall>c. (\<forall>k t. c \<noteq> SetFooter k t) \<longrightarrow> winResult win c = None"
  shows "snd (renderRows win col rs viewRows w i) = None
         \<and> footerTexts (fst (renderRows win col rs viewRows w i)) = []"
  using assms
  by (induction win col rs viewRows w i rule: renderRows.induct)
     (subst (1 2) renderRows.simps, simp add: Let_def)

lemma footerText_frame:
  "footerText (refView\<lparr>viewDimension := d, viewPos := vp\<rparr>) r = footerText refView r"
  by (cases "renderedRefType r") (simp_all add: footerText_def Let_def)

text \<open>
  A render that finds a row under the cursor, on a window that accepts the calls other
  than \<open>SetFooter\<close>, sets the footer that \<open>renderFooter\<close> computes for that row, and no
  other.
\<close>

lemma Render_footerTexts:
  assumes "rowAt (RenderedRefs (renderedRefSet refView)) (activeRowIndex (viewPos refView)) = Inr r"
    and "\<forall>c. (\<forall>k t. c \<noteq> SetFooter k t) \<longrightarrow> winResult win c = None"
  shows "footerTexts (fst (Render refView win))
           = (if footerText refView r = [] then [] else [footerText refView r])"
proof -
  let ?rs = "RenderedRefs (renderedRefSet refView)"
  let ?vp = "DetermineViewStartRow (uintSub (Rows win) 2) (length ?rs) (viewPos refView)"
  from assms(1) have at: "rowAt ?rs (activeRowIndex ?vp) = Inr r"
    by (simp add: DetermineViewStartRow_active)
  from assms(2) have calls: "winResult win (SetSelectedRow n b) = None"
    "winResult win (SetTitle k t) = None" for n b k t
    by simp_all
  show ?thesis
    using at renderRows_accepted [OF assms(2)]
    by (simp add: Render_def Let_def calls renderFooter_def footerText_frame
          footerTexts_append split: option.splits)
qed

lemma Render_completes:
  assumes "rowAt (RenderedRefs (renderedRefSet refView)) (activeRowIndex (viewPos refView)) = Inr r"
    and "\<forall>c. winResult win c = None"
  shows "snd (Render refView win)
           = Inr (refView\<lparr>viewDimension := ViewDimensions win,
                    viewPos := DetermineViewStartRow (uintSub (Rows win) 2)
                      (length (RenderedRefs (renderedRefSet refView))) (viewPos refView)\<rparr>, None)"
proof -
  let ?rs = "RenderedRefs (renderedRefSet refView)"
  let ?vp = "DetermineViewStartRow (uintSub (Rows win) 2) (length ?rs) (viewPos refView)"
  from assms(1) have at: "rowAt ?rs (activeRowIndex ?vp) = Inr r"
    by (simp add: DetermineViewStartRow_active)
  from assms(2) have "\<forall>c. (\<forall>k t. c \<noteq> SetFooter k t) \<longrightarrow> winResult win c = None"
    by simp
  from renderRows_accepted [OF this] at assms(2) show ?thesis
    by (simp add: Render_def Let_def renderFooter_def split: option.splits)
qed

lemma exOnTagsHeader_state:
  "renderedRefSet exOnTagsHeader = renderedRefSet exInitialView"
  "activeRowIndex (viewPos exOnTagsHeader) = 5"
  "refLists exOnTagsHeader = NewRefLists"
  "repoData exOnTagsHeader = exRepoLoading"
  by (simp_all add: exOnTagsHeader_def moveToLastRef_def MoveToLastLine_def Let_def
        exInitialView_state)

lemma exTagsExpanded_state:
  "renderedRefSet exTagsExpanded
     = RenderedRefList None
         [headerRow 0 (NewRefLists ! 0), loadingRow, spacerRow, headerRow 1 (NewRefLists ! 1),
          spacerRow, headerRow 2 ((NewRefLists ! 2)\<lparr>expanded := True\<rparr>), loadingRow] None"
  "activeRowIndex (viewPos exTagsExpanded) = 5"
  "repoData exTagsExpanded = exRepoLoading"
  by (simp_all add: exTagsExpanded_def selectRef_def exOnTagsHeader_state exInitialView_state
        rowAt_def Let_def generateRenderedRefs_addAll generateRenderedRefs_fields
        allRows_def groupRows_def headerRow_def generatorRows_def NewRefLists_def
        exRepoLoading_def numeral_2_eq_2)

lemma exOnLoadingRow_state:
  "renderedRefSet exOnLoadingRow = renderedRefSet exTagsExpanded"
  "activeRowIndex (viewPos exOnLoadingRow) = 6"
  "repoData exOnLoadingRow = exRepoLoading"
  by (simp_all add: exOnLoadingRow_def moveToLastRef_def MoveToLastLine_def Let_def
        exTagsExpanded_state)

lemma exFilterOnce_state:
  "RenderedRefs (renderedRefSet exFilterOnce) = [loadingRow]"
  "Children (renderedRefSet exFilterOnce) = 1"
  "activeRowIndex (viewPos exFilterOnce) = 0"
proof -
  have added: "renderedRefSet exFilterOnce
      = AddChild (renderedRefSet exInitialView)
          (newFilteredRenderedRefList (Some (\<lambda>r. renderedRefType r = RvLoading)))"
    "viewPos exFilterOnce = viewPos exInitialView"
    by (simp_all add: exFilterOnce_def addRefFilter_def exCompile_def Let_def)
  show "RenderedRefs (renderedRefSet exFilterOnce) = [loadingRow]"
    unfolding added RenderedRefs_AddChild
    by (simp add: exInitialView_state accepts_def MatchesFilter_def headerRow_def
          loadingRow_def spacerRow_def NewRefLists_def)
  show "Children (renderedRefSet exFilterOnce) = 1"
    unfolding added Children_AddChild
    by (simp add: exInitialView_state)
  show "activeRowIndex (viewPos exFilterOnce) = 0"
    by (simp add: added exInitialView_state)
qed

lemma exFilterTwice_state:
  "RenderedRefs (renderedRefSet exFilterTwice) = [loadingRow]"
  "Children (renderedRefSet exFilterTwice) = 2"
  "activeRowIndex (viewPos exFilterTwice) = 0"
proof -
  have added: "renderedRefSet exFilterTwice
      = AddChild (renderedRefSet exFilterOnce)
          (newFilteredRenderedRefList (Some (\<lambda>r. renderedRefType r = RvLoading)))"
    "viewPos exFilterTwice = viewPos exFilterOnce"
    by (simp_all add: exFilterTwice_def addRefFilter_def exCompile_def Let_def)
  show "RenderedRefs (renderedRefSet exFilterTwice) = [loadingRow]"
    unfolding added RenderedRefs_AddChild
    by (simp add: exFilterOnce_state accepts_def MatchesFilter_def loadingRow_def)
  show "Children (renderedRefSet exFilterTwice) = 2"
    unfolding added Children_AddChild
    by (simp add: exFilterOnce_state)
  show "activeRowIndex (viewPos exFilterTwice) = 0"
    by (simp add: added exFilterOnce_state)
qed

text \<open>
  C9 (as amended). Take a render that reaches the footer: the cursor is on a visible
  row \<open>r\<close> and the window accepts the calls that draw the rows, the selected row and the
  title. With at least one filter installed the render sets one footer, the number of
  filters followed by \<open>filter applied\<close> for one filter and by \<open>filters applied\<close> for more,
  whatever the selected row. With no filter: on the header of the local or of the remote
  branches the footer is \<open>Loading...\<close> after the name of the group while the branches
  load, and the number of branches after it otherwise; on the header of the tags, once
  the tags are loaded, it is their number after \<open>Tags:\<close>; on a branch or tag row it is
  the number of the row \<open>of\<close> the number of entries; on a spacer or loading row the
  render sets no footer.
\<close>

theorem Render_footer_text:
  assumes "rowAt (RenderedRefs (renderedRefSet refView)) (activeRowIndex (viewPos refView)) = Inr r"
    and "\<forall>c. (\<forall>k t. c \<noteq> SetFooter k t) \<longrightarrow> winResult win c = None"
  shows
  "(Children (renderedRefSet refView) = 1 \<longrightarrow>
      footerTexts (fst (Render refView win)) = [''1 filter applied''])
   \<and> (1 < Children (renderedRefSet refView) \<longrightarrow>
      footerTexts (fst (Render refView win))
        = [showNat (Children (renderedRefSet refView)) @ '' filters applied''])
   \<and> (Children (renderedRefSet refView) = 0 \<and> renderedRefType r = RvLocalBranchGroup \<longrightarrow>
      footerTexts (fst (Render refView win))
        = [if branchesLoading (repoData refView) then ''Branches: Loading...''
           else ''Branches: '' @ showNat (length (localBranches (repoData refView)))])
   \<and> (Children (renderedRefSet refView) = 0 \<and> renderedRefType r = RvRemoteBranchGroup \<longrightarrow>
      footerTexts (fst (Render refView win))
        = [if branchesLoading (repoData refView) then ''Remote Branches: Loading...''
           else ''Remote Branches: ''
                  @ showNat (length (remoteBranches (repoData refView)))])
   \<and> (Children (renderedRefSet refView) = 0 \<and> renderedRefType r = RvTagGroup
        \<and> \<not> tagsLoading (repoData refView) \<longrightarrow>
      footerTexts (fst (Render refView win))
        = [''Tags: '' @ showNat (length (localTags (repoData refView)))])
   \<and> (Children (renderedRefSet refView) = 0 \<and> renderedRefType r = RvLocalBranch \<longrightarrow>
      footerTexts (fst (Render refView win))
        = [''Branch '' @ showNat (refNum r) @ '' of ''
             @ showNat (length (localBranches (repoData refView)))])
   \<and> (Children (renderedRefSet refView) = 0 \<and> renderedRefType r = RvRemoteBranch \<longrightarrow>
      footerTexts (fst (Render refView win))
        = [''Remote Branch '' @ showNat (refNum r) @ '' of ''
             @ showNat (length (remoteBranches (repoData refView)))])
   \<and> (Children (renderedRefSet refView) = 0 \<and> renderedRefType r = RvTag \<longrightarrow>
      footerTexts (fst (Render refView win))
        = [''Tag '' @ showNat (refNum r) @ '' of ''
             @ showNat (length (localTags (repoData refView)))])
   \<and> (Children (renderedRefSet refView) = 0
        \<and> (renderedRefType r = RvSpace \<or> renderedRefType r = RvLoading) \<longrightarrow>
      footerTexts (fst (Render refView win)) = [])"
proof -
  note foot = Render_footerTexts [OF assms]
  have one: "footerTexts (fst (Render refView win)) = [''1 filter applied'']"
    if "Children (renderedRefSet refView) = 1"
    using that by (simp add: foot footerText_def Let_def showNat_1)
  have more: "footerTexts (fst (Render refView win))
        = [showNat (Children (renderedRefSet refView)) @ '' filters applied'']"
    if "1 < Children (renderedRefSet refView)"
    using that by (simp add: foot footerText_def Let_def)
  have lg: "footerTexts (fst (Render refView win))
        = [if branchesLoading (repoData refView) then ''Branches: Loading...''
           else ''Branches: '' @ showNat (length (localBranches (repoData refView)))]"
    if "Children (renderedRefSet refView) = 0 \<and> renderedRefType r = RvLocalBranchGroup"
    using that by (simp add: foot footerText_def Let_def)
  have rg: "footerTexts (fst (Render refView win))
        = [if branchesLoading (repoData refView) then ''Remote Branches: Loading...''
           else ''Remote Branches: ''
                  @ showNat (length (remoteBranches (repoData refView)))]"
    if "Children (renderedRefSet refView) = 0 \<and> renderedRefType r = RvRemoteBranchGroup"
    using that by (simp add: foot footerText_def Let_def)
  have tg: "footerTexts (fst (Render refView win))
        = [''Tags: '' @ showNat (length (localTags (repoData refView)))]"
    if "Children (renderedRefSet refView) = 0 \<and> renderedRefType r = RvTagGroup
        \<and> \<not> tagsLoading (repoData refView)"
    using that by (simp add: foot footerText_def Let_def)
  have lb: "footerTexts (fst (Render refView win))
        = [''Branch '' @ showNat (refNum r) @ '' of ''
             @ showNat (length (localBranches (repoData refView)))]"
    if "Children (renderedRefSet refView) = 0 \<and> renderedRefType r = RvLocalBranch"
    using that by (simp add: foot footerText_def Let_def)
  have rb: "footerTexts (fst (Render refView win))
        = [''Remote Branch '' @ showNat (refNum r) @ '' of ''
             @ showNat (length (remoteBranches (repoData refView)))]"
    if "Children (renderedRefSet refView) = 0 \<and> renderedRefType r = RvRemoteBranch"
    using that by (simp add: foot footerText_def Let_def)
  have tt: "footerTexts (fst (Render refView win))
        = [''Tag '' @ showNat (refNum r) @ '' of ''
             @ showNat (length (localTags (repoData refView)))]"
    if "Children (renderedRefSet refView) = 0 \<and> renderedRefType r = RvTag"
    using that by (simp add: foot footerText_def Let_def)
  have sl: "footerTexts (fst (Render refView win)) = []"
    if "Children (renderedRefSet refView) = 0
        \<and> (renderedRefType r = RvSpace \<or> renderedRefType r = RvLoading)"
    using that by (auto simp add: foot footerText_def Let_def)
  show ?thesis
    by (intro conjI impI) (fact one more lg rg tg lb rb tt sl)+
qed

theorem Render_footer_text_witness:
  "rowAt (RenderedRefs (renderedRefSet exFilterOnce)) (activeRowIndex (viewPos exFilterOnce))
     = Inr loadingRow
   \<and> Children (renderedRefSet exFilterOnce) = 1
   \<and> footerTexts (fst (Render exFilterOnce exWindow)) = [''1 filter applied'']
   \<and> 1 < Children (renderedRefSet exFilterTwice)
   \<and> footerTexts (fst (Render exFilterTwice exWindow)) = [''2 filters applied'']
   \<and> Children (renderedRefSet exInitialView) = 0
   \<and> rowAt (RenderedRefs (renderedRefSet exInitialView)) (activeRowIndex (viewPos exInitialView))
       = Inr (headerRow 0 (NewRefLists ! 0))
   \<and> branchesLoading (repoData exInitialView)
   \<and> footerTexts (fst (Render exInitialView exWindow)) = [''Branches: Loading...'']
   \<and> Children (renderedRefSet exLoadedView) = 0
   \<and> footerTexts (fst (Render exLoadedView exWindow)) = [''Branches: 2'']
   \<and> rowAt (RenderedRefs (renderedRefSet (exOnMaster [])))
         (activeRowIndex (viewPos (exOnMaster [])))
       = Inr (branchRow RvLocalBranch (1, exMaster))
   \<and> footerTexts (fst (Render (exOnMaster []) exWindow)) = [''Branch 1 of 2'']
   \<and> rowAt (RenderedRefs (renderedRefSet exAfterBranchLoad))
         (activeRowIndex (viewPos exAfterBranchLoad))
       = Inr spacerRow
   \<and> footerTexts (fst (Render exAfterBranchLoad exWindow)) = []"
proof -
  have win: "\<forall>c. (\<forall>k t. c \<noteq> SetFooter k t) \<longrightarrow> winResult exWindow c = None"
    by (simp add: exWindow_def)
  have once: "rowAt (RenderedRefs (renderedRefSet exFilterOnce))
      (activeRowIndex (viewPos exFilterOnce)) = Inr loadingRow"
    by (simp add: exFilterOnce_state rowAt_def)
  have twice: "rowAt (RenderedRefs (renderedRefSet exFilterTwice))
      (activeRowIndex (viewPos exFilterTwice)) = Inr loadingRow"
    by (simp add: exFilterTwice_state rowAt_def)
  have initial: "rowAt (RenderedRefs (renderedRefSet exInitialView))
      (activeRowIndex (viewPos exInitialView)) = Inr (headerRow 0 (NewRefLists ! 0))"
    by (simp add: exInitialView_state rowAt_def)
  have loaded: "rowAt (RenderedRefs (renderedRefSet exLoadedView))
      (activeRowIndex (viewPos exLoadedView)) = Inr (headerRow 0 (NewRefLists ! 0))"
    by (simp add: exLoadedView_rows exLoadedView_fields rowAt_def)
  have master: "rowAt (RenderedRefs (renderedRefSet (exOnMaster [])))
      (activeRowIndex (viewPos (exOnMaster []))) = Inr (branchRow RvLocalBranch (1, exMaster))"
    by (simp add: exOnMaster_def SetActiveRowIndex_def exLoadedView_rows rowAt_def)
  have spacer: "rowAt (RenderedRefs (renderedRefSet exAfterBranchLoad))
      (activeRowIndex (viewPos exAfterBranchLoad)) = Inr spacerRow"
    by (simp add: exAfterBranchLoad_state rowAt_def)
  have depth: "Children (renderedRefSet exInitialView) = 0"
    "Children (renderedRefSet exLoadedView) = 0"
    "Children (renderedRefSet (exOnMaster [])) = 0"
    "Children (renderedRefSet exAfterBranchLoad) = 0"
    by (simp_all add: exInitialView_state exLoadedView_rows exOnMaster_def
          exAfterBranchLoad_state)
  have kinds: "renderedRefType (headerRow 0 (NewRefLists ! 0)) = RvLocalBranchGroup"
    "renderedRefType (branchRow RvLocalBranch (n, exMaster)) = RvLocalBranch"
    "refNum (branchRow RvLocalBranch (n, exMaster)) = n"
    "renderedRefType spacerRow = RvSpace" for n
    by (simp_all add: headerRow_def NewRefLists_def branchRow_def spacerRow_def)
  have repo: "branchesLoading (repoData exInitialView)"
    "\<not> branchesLoading (repoData exLoadedView)"
    "length (localBranches (repoData exLoadedView)) = 2"
    "\<not> branchesLoading (repoData (exOnMaster []))"
    "length (localBranches (repoData (exOnMaster []))) = 2"
    by (simp_all add: exInitialView_state exLoadedView_fields exOnMaster_def
          exRepoLoading_def exRepoLoaded_def)
  show ?thesis
    using once twice initial master spacer
      Render_footer_text [OF once win] Render_footer_text [OF twice win]
      Render_footer_text [OF initial win] Render_footer_text [OF loaded win]
      Render_footer_text [OF master win] Render_footer_text [OF spacer win]
    by (simp add: exFilterOnce_state exFilterTwice_state depth kinds repo showNat_1
          showNat_digits)
qed

text \<open>
  C9 as stated does not hold for every render. While the tags load and no filter is
  installed, a move to the last row, the selection of the \<open>Tags\<close> header and another move
  to the last row leave the cursor on the loading row of the tags: the render completes
  and sets no footer. On the \<open>Tags\<close> header, in the same load, the footer is
  \<open>Tags: Loading\<close>. With one filter installed that matches no row, the render stops at
  the read of the row under the cursor and sets no footer either.
\<close>

theorem footer_not_set_counterexample:
  "Children (renderedRefSet exOnLoadingRow) = 0
   \<and> tagsLoading (repoData exOnLoadingRow)
   \<and> map renderedRefType (RenderedRefs (renderedRefSet exOnLoadingRow))
       = [RvLocalBranchGroup, RvLoading, RvSpace, RvRemoteBranchGroup, RvSpace, RvTagGroup,
          RvLoading]
   \<and> activeRowIndex (viewPos exOnLoadingRow) = 6
   \<and> (case snd (Render exOnLoadingRow exWindow) of Inl p \<Rightarrow> False | Inr (rv, e) \<Rightarrow> e = None)
   \<and> footerTexts (fst (Render exOnLoadingRow exWindow)) = []
   \<and> activeRowIndex (viewPos exOnTagsHeader) = 5
   \<and> footerTexts (fst (Render exOnTagsHeader exWindow)) = [''Tags: Loading'']
   \<and> Children (renderedRefSet exEmptyView) = 1
   \<and> snd (Render exEmptyView exWindow) = Inl IndexOutOfRange
   \<and> footerTexts (fst (Render exEmptyView exWindow)) = []"
proof -
  have win: "\<forall>c. winResult exWindow c = None"
    "\<forall>c. (\<forall>k t. c \<noteq> SetFooter k t) \<longrightarrow> winResult exWindow c = None"
    by (simp_all add: exWindow_def)
  have state: "Children (renderedRefSet exOnLoadingRow) = 0"
    "tagsLoading (repoData exOnLoadingRow)"
    "map renderedRefType (RenderedRefs (renderedRefSet exOnLoadingRow))
       = [RvLocalBranchGroup, RvLoading, RvSpace, RvRemoteBranchGroup, RvSpace, RvTagGroup,
          RvLoading]"
    by (simp_all add: exOnLoadingRow_state exTagsExpanded_state exRepoLoading_def
          headerRow_def loadingRow_def spacerRow_def NewRefLists_def)
  have row: "rowAt (RenderedRefs (renderedRefSet exOnLoadingRow))
      (activeRowIndex (viewPos exOnLoadingRow)) = Inr loadingRow"
    by (simp add: exOnLoadingRow_state exTagsExpanded_state rowAt_def)
  have completes: "case snd (Render exOnLoadingRow exWindow) of
      Inl p \<Rightarrow> False | Inr (rv, e) \<Rightarrow> e = None"
    by (simp add: Render_completes [OF row win(1)])
  have none: "footerTexts (fst (Render exOnLoadingRow exWindow)) = []"
    by (simp add: Render_footerTexts [OF row win(2)] footerText_def Let_def state(1)
          loadingRow_def)
  have header: "rowAt (RenderedRefs (renderedRefSet exOnTagsHeader))
      (activeRowIndex (viewPos exOnTagsHeader)) = Inr (headerRow 2 (NewRefLists ! 2))"
    by (simp add: exOnTagsHeader_state exInitialView_state rowAt_def)
  have tags: "footerTexts (fst (Render exOnTagsHeader exWindow)) = [''Tags: Loading'']"
    by (simp add: Render_footerTexts [OF header win(2)] footerText_def Let_def
          exOnTagsHeader_state exInitialView_state exRepoLoading_def headerRow_def
          NewRefLists_def)
  have unfiltered: "Children (renderedRefSet exLoadedView) = 0"
    by (simp add: exLoadedView_rows)
  have empty: "RenderedRefs (renderedRefSet exEmptyView) = []"
    "Children (renderedRefSet exEmptyView) = 1"
    by (simp_all add: exEmptyView_def addRefFilter_def Let_def RenderedRefs_AddChild
          Children_AddChild accepts_def MatchesFilter_def unfiltered)
  have drawn: "renderRows exWindow col [] viewRows w i = ([], None)" for col viewRows w i
    by (subst renderRows.simps) simp
  have stops: "snd (Render exEmptyView exWindow) = Inl IndexOutOfRange"
    "footerTexts (fst (Render exEmptyView exWindow)) = []"
    by (simp_all add: Render_def Let_def empty drawn win(1) rowAt_def)
  show ?thesis
    by (intro conjI) (fact state exOnLoadingRow_state(2) completes none
          exOnTagsHeader_state(2) tags empty(2) stops)+
qed

end
